theory Spec2Isabelle
  imports Main "HOL-Library.Word" "HOL-Library.Sublist"
begin

section \<open>Python values seen by \<open>HTMLDocument\<close>\<close>

text \<open>
  The builder of \<^verbatim>\<open>htmlcreator/document.py\<close> is dynamically typed: every method
  tests its argument with \<^verbatim>\<open>isinstance\<close> and tests optional arguments for
  truthiness. The values that can reach those tests are modelled by two datatypes:
  scalars (\<^verbatim>\<open>None\<close>, \<^verbatim>\<open>bool\<close>, \<^verbatim>\<open>int\<close>, \<^verbatim>\<open>str\<close>), which
  are formatted into the markup, and objects, on which the methods dispatch.
  Objects of pandas, PIL and plotly are opaque: their types are parameters.
\<close>

type_synonym bytes = "8 word list"

datatype pyscalar = PyNone | PyBool bool | PyInt int | PyStr string

datatype dtype = Bool8 | Int8 | UInt8 | Int16 | UInt16 | Int32 | UInt32 | Int64 | UInt64
  | Float16 | Float32 | Float64 | Complex128 | ObjectDtype

record ndarray =
  dtype :: dtype
  shape :: "nat list"
  buffer :: bytes

definition ndim :: "ndarray \<Rightarrow> nat" where
  "ndim a = length (shape a)"

datatype ('df, 'img, 'fig) pyobj =
    NdArray ndarray
  | PILImage 'img
  | Path string
  | Str string
  | DataFrame 'df
  | Figure 'fig
  | OtherObject pyscalar

subsection \<open>Truthiness and formatting\<close>

text \<open>\<^verbatim>\<open>if x:\<close> on a scalar.\<close>

fun truthy :: "pyscalar \<Rightarrow> bool" where
  "truthy PyNone = False"
| "truthy (PyBool b) = b"
| "truthy (PyInt i) = (i \<noteq> 0)"
| "truthy (PyStr s) = (s \<noteq> [])"

definition digit_char :: "nat \<Rightarrow> char" where
  "digit_char n = ''0123456789'' ! n"

fun str_nat :: "nat \<Rightarrow> string" where
  "str_nat n = (if n < 10 then [digit_char n] else str_nat (n div 10) @ [digit_char (n mod 10)])"

definition str_int :: "int \<Rightarrow> string" where
  "str_int i = (if i < 0 then ''-'' @ str_nat (nat (- i)) else str_nat (nat i))"

text \<open>\<^verbatim>\<open>f'{x}'\<close> on a scalar.\<close>

fun format :: "pyscalar \<Rightarrow> string" where
  "format PyNone = ''None''"
| "format (PyBool b) = (if b then ''True'' else ''False'')"
| "format (PyInt i) = str_int i"
| "format (PyStr s) = s"

section \<open>Exceptions\<close>

text \<open>
  One constructor for each \<^verbatim>\<open>raise\<close> statement of the file, and one for an
  exception that comes out of a collaborator (pandas, PIL, plotly, the file system).
  \<open>exc_class_of\<close> is the Python class of the exception, which is what a caller can catch.
\<close>

datatype exc_class = TypeError | RuntimeError | OSError | OtherException

datatype error =
    DfNotDataFrame
  | ImageLinkNotPathOrStr
  | FigNotFigure
  | DtypeNotUint8
  | NdimNot2Or3
  | ImageTypeUnsupported
  | Foreign exc_class

fun exc_class_of :: "error \<Rightarrow> exc_class" where
  "exc_class_of DfNotDataFrame = TypeError"
| "exc_class_of ImageLinkNotPathOrStr = TypeError"
| "exc_class_of FigNotFigure = TypeError"
| "exc_class_of DtypeNotUint8 = RuntimeError"
| "exc_class_of NdimNot2Or3 = RuntimeError"
| "exc_class_of ImageTypeUnsupported = TypeError"
| "exc_class_of (Foreign c) = c"

section \<open>Collaborators\<close>

text \<open>
  The library calls the file makes. Each may raise.
  \<^item> \<open>df_to_html\<close>: \<^verbatim>\<open>df.to_html()\<close>;
  \<^item> \<open>fromarray\<close>: \<^verbatim>\<open>Image.fromarray(image)\<close>;
  \<^item> \<open>save_png\<close>: \<^verbatim>\<open>image.save(buff, format='PNG')\<close> followed by \<^verbatim>\<open>buff.getvalue()\<close>;
  \<^item> \<open>read_binary\<close>: \<^verbatim>\<open>open(p, 'rb').read()\<close>;
  \<^item> \<open>read_text\<close>: \<^verbatim>\<open>open(p).read()\<close>;
  \<^item> \<open>write_text\<close>: \<^verbatim>\<open>open(p, 'w').write(s)\<close>;
  \<^item> \<open>plotly_to_html\<close>: \<^verbatim>\<open>plotly.io.to_html(fig=fig, full_html=False, include_plotlyjs=m)\<close>;
  \<^item> \<open>style_filepath\<close>: the path of \<^verbatim>\<open>style.css\<close> beside the module.
\<close>

record ('df, 'img, 'fig) env =
  df_to_html :: "'df \<Rightarrow> error + string"
  fromarray :: "ndarray \<Rightarrow> error + 'img"
  save_png :: "'img \<Rightarrow> error + bytes"
  read_binary :: "string \<Rightarrow> error + bytes"
  read_text :: "string \<Rightarrow> error + string"
  write_text :: "string \<Rightarrow> string \<Rightarrow> error option"
  plotly_to_html :: "'fig \<Rightarrow> pyscalar \<Rightarrow> error + string"
  style_filepath :: string

section \<open>Base64\<close>

text \<open>
  \<^verbatim>\<open>base64.b64encode\<close> of the Python standard library: the encoding of RFC 4648
  with the standard alphabet and \<^verbatim>\<open>=\<close> padding. Three bytes give four characters
  of six bits each.
\<close>

definition b64_alphabet :: string where
  "b64_alphabet = ''ABCDEFGHIJKLMNOPQRSTUVWXYZabcdefghijklmnopqrstuvwxyz0123456789+/''"

definition b64_char :: "nat \<Rightarrow> char" where
  "b64_char n = b64_alphabet ! n"

fun b64encode :: "bytes \<Rightarrow> string" where
  "b64encode [] = []"
| "b64encode [a] =
     (let x = unat a
      in [b64_char (x div 4), b64_char ((x mod 4) * 16), CHR ''='', CHR ''=''])"
| "b64encode [a, b] =
     (let x = unat a; y = unat b
      in [b64_char (x div 4), b64_char ((x mod 4) * 16 + y div 16),
          b64_char ((y mod 16) * 4), CHR ''=''])"
| "b64encode (a # b # c # rest) =
     (let x = unat a; y = unat b; z = unat c
      in [b64_char (x div 4), b64_char ((x mod 4) * 16 + y div 16),
          b64_char ((y mod 16) * 4 + z div 64), b64_char (z mod 64)] @ b64encode rest)"

text \<open>The decoder of RFC 4648, used to state that an encoded image can be read back.\<close>

definition b64_index :: "char \<Rightarrow> nat option" where
  "b64_index c = map_of (zip b64_alphabet [0 ..< 64]) c"

fun b64decode :: "string \<Rightarrow> bytes option" where
  "b64decode [] = Some []"
| "b64decode (c1 # c2 # c3 # c4 # rest) =
     (case (b64_index c1, b64_index c2) of
        (Some n1, Some n2) \<Rightarrow>
          if c3 = CHR ''='' \<and> c4 = CHR ''='' \<and> rest = []
          then Some [of_nat (n1 * 4 + n2 div 16)]
          else (case b64_index c3 of
                  None \<Rightarrow> None
                | Some n3 \<Rightarrow>
                    if c4 = CHR ''='' \<and> rest = []
                    then Some [of_nat (n1 * 4 + n2 div 16), of_nat ((n2 mod 16) * 16 + n3 div 4)]
                    else (case b64_index c4 of
                            None \<Rightarrow> None
                          | Some n4 \<Rightarrow>
                              map_option
                                (\<lambda>bs. of_nat (n1 * 4 + n2 div 16)
                                      # of_nat ((n2 mod 16) * 16 + n3 div 4)
                                      # of_nat ((n3 mod 4) * 64 + n4) # bs)
                                (b64decode rest)))
      | _ \<Rightarrow> None)"
| "b64decode _ = None"

section \<open>The document\<close>

record document =
  style :: string
  title :: string
  head :: string
  body :: string
  is_plotlyjs_included :: bool

text \<open>\<^verbatim>\<open>__str__\<close>: the adjacent literals and f-strings, concatenated in order.\<close>

definition render :: "document \<Rightarrow> string" where
  \<open>render d =
     ''<!DOCTYPE html>\<newline>''
     @ ''<html lang="en">\<newline>''
     @ ''<head>\<newline>''
     @ ''<meta charset="UTF-8">\<newline>''
     @ (''<title>'' @ title d @ ''</title>\<newline>'')
     @ (''<style type="text/css">\<newline>'' @ style d @ ''</style>\<newline>'')
     @ head d
     @ ''</head>\<newline>''
     @ ''<body>\<newline>''
     @ body d
     @ ''</body>\<newline>''
     @ ''</html>\<newline>''\<close>

definition add_header :: "document \<Rightarrow> string \<Rightarrow> string \<Rightarrow> string \<Rightarrow> document" where
  \<open>add_header d header level align =
     d\<lparr>body := body d @
          ((''<'' @ level @ '' style="text-align: '' @ align @ ''">'')
           @ header
           @ (''</'' @ level @ ''>\<newline>''))\<rparr>\<close>

definition add_text :: "document \<Rightarrow> string \<Rightarrow> string \<Rightarrow> string \<Rightarrow> string \<Rightarrow> document" where
  \<open>add_text d text' size' indent align =
     d\<lparr>body := body d @
          ((''<p style="font-size:'' @ size' @ ''; text-indent: '' @ indent
             @ ''; text-align: '' @ align @ ''">'')
           @ text'
           @ ''</p>\<newline>'')\<rparr>\<close>

definition add_line_break :: "document \<Rightarrow> document" where
  \<open>add_line_break d = d\<lparr>body := body d @ ''<br>\<newline>''\<rparr>\<close>

definition add_page_break :: "document \<Rightarrow> document" where
  \<open>add_page_break d =
     d\<lparr>body := body d @ ''<p style="page-break-after: always;">&nbsp;</p>\<newline>''\<rparr>\<close>

text \<open>
  A method that may raise returns the exception, if any, together with the document as
  the call leaves it: the object survives the exception, and the caller may go on using it.
\<close>

definition add_table ::
  "('df, 'img, 'fig) env \<Rightarrow> document \<Rightarrow> ('df, 'img, 'fig) pyobj \<Rightarrow> error option \<times> document" where
  \<open>add_table E d df =
     (case df of
        DataFrame t \<Rightarrow>
          (case df_to_html E t of
             Inl e \<Rightarrow> (Some e, d)
           | Inr html \<Rightarrow>
               (None, d\<lparr>body := body d @
                          (''<div class="pandas-dataframe">\<newline>''
                           @ (html @ ''\<newline>'')
                           @ ''</div>\<newline>'')\<rparr>))
      | _ \<Rightarrow> (Some DfNotDataFrame, d))\<close>

text \<open>\<^verbatim>\<open>_add_image_tag\<close>: the tag is built by successive \<^verbatim>\<open>+=\<close>.\<close>

definition add_image_tag ::
  "document \<Rightarrow> string \<Rightarrow> pyscalar \<Rightarrow> pyscalar \<Rightarrow> pyscalar \<Rightarrow> bool \<Rightarrow> document" where
  \<open>add_image_tag d src title' height width pixelated =
     (let image_tag = ''<img src="'' @ src @ ''"'';
          image_tag = (if truthy title'
                       then image_tag @ ('' title="'' @ format title' @ ''"'') else image_tag);
          image_tag = (if truthy height
                       then image_tag @ ('' height='' @ format height) else image_tag);
          image_tag = (if truthy width
                       then image_tag @ ('' width='' @ format width) else image_tag);
          image_tag = image_tag @ '' style="border:1px solid #021a40; margin: 3px 3px'';
          image_tag = (if pixelated
                       then image_tag @ ''; image-rendering: pixelated'' else image_tag);
          image_tag = image_tag @ ''">\<newline>''
      in d\<lparr>body := body d @ image_tag\<rparr>)\<close>

text \<open>
  \<^verbatim>\<open>_encode_image\<close>: the \<^verbatim>\<open>isinstance\<close> chain in the order of the source. It does
  not touch the document. \<^verbatim>\<open>encoded.decode('utf-8')\<close> is the identity on the
  ASCII output of \<^verbatim>\<open>b64encode\<close>.
\<close>

definition encode_image ::
  "('df, 'img, 'fig) env \<Rightarrow> ('df, 'img, 'fig) pyobj \<Rightarrow> error + string" where
  "encode_image E image' =
     (case image' of
        NdArray a \<Rightarrow>
          if dtype a \<noteq> UInt8 then Inl DtypeNotUint8
          else if \<not> (ndim a = 2 \<or> ndim a = 3) then Inl NdimNot2Or3
          else (case fromarray E a of
                  Inl e \<Rightarrow> Inl e
                | Inr img \<Rightarrow>
                    (case save_png E img of
                       Inl e \<Rightarrow> Inl e
                     | Inr buff \<Rightarrow> Inr (b64encode buff)))
      | PILImage img \<Rightarrow>
          (case save_png E img of
             Inl e \<Rightarrow> Inl e
           | Inr buff \<Rightarrow> Inr (b64encode buff))
      | Path p \<Rightarrow>
          (case read_binary E p of
             Inl e \<Rightarrow> Inl e
           | Inr bs \<Rightarrow> Inr (b64encode bs))
      | Str p \<Rightarrow>
          (case read_binary E p of
             Inl e \<Rightarrow> Inl e
           | Inr bs \<Rightarrow> Inr (b64encode bs))
      | _ \<Rightarrow> Inl ImageTypeUnsupported)"

definition add_image ::
  "('df, 'img, 'fig) env \<Rightarrow> document \<Rightarrow> ('df, 'img, 'fig) pyobj \<Rightarrow>
     pyscalar \<Rightarrow> pyscalar \<Rightarrow> pyscalar \<Rightarrow> bool \<Rightarrow> error option \<times> document" where
  "add_image E d image' title' height width pixelated =
     (case encode_image E image' of
        Inl e \<Rightarrow> (Some e, d)
      | Inr image_encoded_str \<Rightarrow>
          (let image_src = ''data:image/png;base64, '' @ image_encoded_str
           in (None, add_image_tag d image_src title' height width pixelated)))"

definition add_image_link ::
  "document \<Rightarrow> ('df, 'img, 'fig) pyobj \<Rightarrow>
     pyscalar \<Rightarrow> pyscalar \<Rightarrow> pyscalar \<Rightarrow> bool \<Rightarrow> error option \<times> document" where
  "add_image_link d image_link title' height width pixelated =
     (case image_link of
        Path p \<Rightarrow> (None, add_image_tag d p title' height width pixelated)
      | Str s \<Rightarrow> (None, add_image_tag d s title' height width pixelated)
      | _ \<Rightarrow> (Some ImageLinkNotPathOrStr, d))"

text \<open>
  \<^verbatim>\<open>add_plotly_figure\<close>: the flag is assigned before \<^verbatim>\<open>plotly.io.to_html\<close> is
  called, and the body after it has returned.
\<close>

definition add_plotly_figure ::
  "('df, 'img, 'fig) env \<Rightarrow> document \<Rightarrow> ('df, 'img, 'fig) pyobj \<Rightarrow> bool
     \<Rightarrow> error option \<times> document" where
  \<open>add_plotly_figure E d fig include_plotlyjs =
     (case fig of
        Figure f \<Rightarrow>
          (let (include_plotlyjs', d1) =
                 (if is_plotlyjs_included d then (PyBool False, d)
                  else if include_plotlyjs
                       then (PyBool include_plotlyjs, d\<lparr>is_plotlyjs_included := True\<rparr>)
                  else (PyStr ''cdn'', d))
           in case plotly_to_html E f include_plotlyjs' of
                Inl e \<Rightarrow> (Some e, d1)
              | Inr plotly_figure_html \<Rightarrow>
                  (None, d1\<lparr>body := body d1 @
                               (''<div class="plotly-figure">\<newline>''
                                @ (plotly_figure_html @ ''\<newline>'')
                                @ ''</div>\<newline>'')\<rparr>))
      | _ \<Rightarrow> (Some FigNotFigure, d))\<close>

definition set_style :: "document \<Rightarrow> string \<Rightarrow> document" where
  "set_style d style' = d\<lparr>style := style'\<rparr>"

definition set_title :: "document \<Rightarrow> string \<Rightarrow> document" where
  "set_title d title' = d\<lparr>title := title'\<rparr>"

text \<open>\<^verbatim>\<open>write\<close>: the file system is outside the document, which the call leaves as it is.\<close>

definition write' :: "('df, 'img, 'fig) env \<Rightarrow> document \<Rightarrow> string \<Rightarrow> error option \<times> document" where
  "write' E d filepath = (write_text E filepath (render d), d)"

text \<open>
  \<^verbatim>\<open>__init__\<close> with \<^verbatim>\<open>_set_default_style\<close>: the constructor raises when the
  stylesheet cannot be read, and then there is no document. The title is
  \<^verbatim>\<open>self.__class__.__name__\<close>, the name of the class instantiated.
\<close>

definition set_default_style :: "('df, 'img, 'fig) env \<Rightarrow> document \<Rightarrow> error + document" where
  "set_default_style E d =
     (case read_text E (style_filepath E) of
        Inl e \<Rightarrow> Inl e
      | Inr style' \<Rightarrow> Inr (set_style d style'))"

definition init :: "('df, 'img, 'fig) env \<Rightarrow> string \<Rightarrow> error + document" where
  "init E class_name =
     set_default_style E
       \<lparr>style = [], title = class_name, head = [], body = [], is_plotlyjs_included = False\<rparr>"

definition new_document :: "('df, 'img, 'fig) env \<Rightarrow> error + document" where
  "new_document E = init E ''HTMLDocument''"

section \<open>Sequences of calls\<close>

text \<open>
  A call of a public method with its arguments. \<open>step\<close> performs one call; \<open>run\<close>
  performs a list of calls on the same object, going on after a call that raised, as a
  caller that catches the exception can. \<open>run_results\<close> are the outcomes of the calls.
\<close>

datatype ('df, 'img, 'fig) call =
    AddHeader string string string
  | AddText string string string string
  | AddLineBreak
  | AddPageBreak
  | AddTable "('df, 'img, 'fig) pyobj"
  | AddImage "('df, 'img, 'fig) pyobj" pyscalar pyscalar pyscalar bool
  | AddImageLink "('df, 'img, 'fig) pyobj" pyscalar pyscalar pyscalar bool
  | AddPlotlyFigure "('df, 'img, 'fig) pyobj" bool
  | SetStyle string
  | SetTitle string
  | Write string

fun step ::
  "('df, 'img, 'fig) env \<Rightarrow> document \<Rightarrow> ('df, 'img, 'fig) call \<Rightarrow> error option \<times> document" where
  "step E d (AddHeader header level align) = (None, add_header d header level align)"
| "step E d (AddText text' size' indent align) = (None, add_text d text' size' indent align)"
| "step E d AddLineBreak = (None, add_line_break d)"
| "step E d AddPageBreak = (None, add_page_break d)"
| "step E d (AddTable df) = add_table E d df"
| "step E d (AddImage image' title' height width pixelated) =
     add_image E d image' title' height width pixelated"
| "step E d (AddImageLink image_link title' height width pixelated) =
     add_image_link d image_link title' height width pixelated"
| "step E d (AddPlotlyFigure fig include_plotlyjs) = add_plotly_figure E d fig include_plotlyjs"
| "step E d (SetStyle style') = (None, set_style d style')"
| "step E d (SetTitle title') = (None, set_title d title')"
| "step E d (Write filepath) = write' E d filepath"

fun run :: "('df, 'img, 'fig) env \<Rightarrow> document \<Rightarrow> ('df, 'img, 'fig) call list \<Rightarrow> document" where
  "run E d [] = d"
| "run E d (c # cs) = run E (snd (step E d c)) cs"

fun run_results ::
  "('df, 'img, 'fig) env \<Rightarrow> document \<Rightarrow> ('df, 'img, 'fig) call list \<Rightarrow> error option list" where
  "run_results E d [] = []"
| "run_results E d (c # cs) = fst (step E d c) # run_results E (snd (step E d c)) cs"

fun is_append :: "('df, 'img, 'fig) call \<Rightarrow> bool" where
  "is_append (SetStyle _) = False"
| "is_append (SetTitle _) = False"
| "is_append (Write _) = False"
| "is_append _ = True"

section \<open>The specification's formulations\<close>

text \<open>
  The page template of the specification, with its four placeholders, and the
  substitution of field values for placeholders. A substituted value is not scanned
  again: it goes into the output as it is.
\<close>

definition page_template :: string where
  \<open>page_template =
     ''<!DOCTYPE html>\<newline><html lang="en">\<newline><head>\<newline><meta charset="UTF-8">\<newline><title>{title}</title>\<newline><style type="text/css">\<newline>{style}</style>\<newline>{head}</head>\<newline><body>\<newline>{body}</body>\<newline></html>\<newline>''\<close>

fun substitute :: "(string \<times> string) list \<Rightarrow> string \<Rightarrow> string" where
  "substitute fs [] = []"
| "substitute fs (c # cs) =
     (case find (\<lambda>(name, v). prefix (''{'' @ name @ ''}'') (c # cs)) fs of
        Some (name, v) \<Rightarrow> v @ substitute fs (drop (length name + 1) cs)
      | None \<Rightarrow> c # substitute fs cs)"

definition fields_of :: "document \<Rightarrow> (string \<times> string) list" where
  "fields_of d =
     [(''title'', title d), (''style'', style d), (''head'', head d), (''body'', body d)]"

text \<open>
  The image tag of the specification: an optional part is present exactly when its
  argument is truthy.
\<close>

definition img_tag_spec :: "string \<Rightarrow> pyscalar \<Rightarrow> pyscalar \<Rightarrow> pyscalar \<Rightarrow> bool \<Rightarrow> string" where
  \<open>img_tag_spec src title' height width pixelated =
     ''<img src="'' @ src @ ''"''
     @ (if truthy title' then '' title="'' @ format title' @ ''"'' else [])
     @ (if truthy height then '' height='' @ format height else [])
     @ (if truthy width then '' width='' @ format width else [])
     @ '' style="border:1px solid #021a40; margin: 3px 3px''
     @ (if pixelated then ''; image-rendering: pixelated'' else [])
     @ ''">''
     @ ''\<newline>''\<close>

text \<open>
  The bytes an image source stands for: the PNG encoding made by the image collaborator
  for an array or a decoded image, the content of the file for a path.
\<close>

definition produced_bytes ::
  "('df, 'img, 'fig) env \<Rightarrow> ('df, 'img, 'fig) pyobj \<Rightarrow> bytes option" where
  "produced_bytes E image' =
     (case image' of
        NdArray a \<Rightarrow>
          (case fromarray E a of
             Inl _ \<Rightarrow> None
           | Inr img \<Rightarrow> (case save_png E img of Inl _ \<Rightarrow> None | Inr bs \<Rightarrow> Some bs))
      | PILImage img \<Rightarrow> (case save_png E img of Inl _ \<Rightarrow> None | Inr bs \<Rightarrow> Some bs)
      | Path p \<Rightarrow> (case read_binary E p of Inl _ \<Rightarrow> None | Inr bs \<Rightarrow> Some bs)
      | Str p \<Rightarrow> (case read_binary E p of Inl _ \<Rightarrow> None | Inr bs \<Rightarrow> Some bs)
      | _ \<Rightarrow> None)"

text \<open>
  The three modes of including the chart runtime, the value each has as the
  \<^verbatim>\<open>include_plotlyjs\<close> argument of the chart collaborator, and the rule of the
  chart-embedding algorithm: the mode of each call of a sequence, from the flag before
  the sequence and the callers' requests.
\<close>

datatype runtime_mode = Omit | Inline | Cdn

fun mode_arg :: "runtime_mode \<Rightarrow> pyscalar" where
  "mode_arg Omit = PyBool False"
| "mode_arg Inline = PyBool True"
| "mode_arg Cdn = PyStr ''cdn''"

fun spec_modes :: "bool \<Rightarrow> bool list \<Rightarrow> runtime_mode list" where
  "spec_modes included [] = []"
| "spec_modes included (request # requests) =
     (if included then Omit # spec_modes True requests
      else if request then Inline # spec_modes True requests
      else Cdn # spec_modes False requests)"

text \<open>What a chart call adds to the body when the collaborator is given mode \<open>m\<close>.\<close>

definition chart_fragment :: "('df, 'img, 'fig) env \<Rightarrow> 'fig \<times> runtime_mode \<Rightarrow> string" where
  \<open>chart_fragment E fm =
     (case plotly_to_html E (fst fm) (mode_arg (snd fm)) of
        Inl e \<Rightarrow> []
      | Inr html \<Rightarrow> ''<div class="plotly-figure">\<newline>'' @ html @ ''\<newline></div>\<newline>'')\<close>

text \<open>How a chart call ends when the collaborator is given mode \<open>m\<close>.\<close>

definition chart_outcome :: "('df, 'img, 'fig) env \<Rightarrow> 'fig \<times> runtime_mode \<Rightarrow> error option" where
  "chart_outcome E fm =
     (case plotly_to_html E (fst fm) (mode_arg (snd fm)) of
        Inl e \<Rightarrow> Some e
      | Inr html \<Rightarrow> None)"

definition chart_call :: "'fig \<times> bool \<Rightarrow> ('df, 'img, 'fig) call" where
  "chart_call fr = AddPlotlyFigure (Figure (fst fr)) (snd fr)"

section \<open>The image collaborator\<close>

text \<open>
  Modelled from the spec: the image decode/encode collaborator (Pillow), which the
  repository imports and does not contain. The specification asks of it that, given a
  pixel array or a decoded image, it encodes to PNG bytes in memory, and that, given raw
  bytes, it constructs an image from them. The model follows the PNG standard: a
  signature, an \<^verbatim>\<open>IHDR\<close> chunk with the dimensions, bit depth 8 and the colour
  type, the scanlines as a zlib stream in \<^verbatim>\<open>IDAT\<close> chunks, and an
  \<^verbatim>\<open>IEND\<close> chunk, each chunk with its length and CRC-32. The encoder writes the
  zlib stream in stored blocks, where Pillow compresses it: the bytes differ, the image
  encoded is the same. The decoder reads what the encoder writes, stored blocks and
  unfiltered scanlines only, and checks every length, CRC-32 and Adler-32 on the way, so
  that what it accepts is a PNG file and what it returns is the image in it. The builder
  itself is stated over any collaborator (the fields \<open>fromarray\<close> and \<open>save_png\<close>
  of \<open>env\<close>); \<open>with_pillow\<close> puts this one in.
\<close>

unbundle bit_operations_syntax

datatype image_mode = ModeL | ModeLA | ModeRGB | ModeRGBA

fun channels :: "image_mode \<Rightarrow> nat" where
  "channels ModeL = 1"
| "channels ModeLA = 2"
| "channels ModeRGB = 3"
| "channels ModeRGBA = 4"

fun colour_type :: "image_mode \<Rightarrow> 8 word" where
  "colour_type ModeL = 0"
| "colour_type ModeLA = 4"
| "colour_type ModeRGB = 2"
| "colour_type ModeRGBA = 6"

text \<open>A decoded image: its mode, its size, and its pixels row by row, channels interleaved.\<close>

record pil_image =
  im_mode :: image_mode
  im_width :: nat
  im_height :: nat
  im_data :: bytes

text \<open>
  Modelled from the spec: \<^verbatim>\<open>Image.fromarray\<close> on an array of uint8, the only element
  type the builder hands over. Rows by columns is a greyscale image; rows by columns by
  2, 3 or 4 channels is an image with that many bands; the width is the number of
  columns and the height the number of rows. Anything else is refused.
\<close>

definition Image_fromarray :: "ndarray \<Rightarrow> error + pil_image" where
  "Image_fromarray a =
     (if dtype a \<noteq> UInt8 then Inl (Foreign TypeError)
      else case shape a of
             [rows, cols] \<Rightarrow>
               Inr \<lparr>im_mode = ModeL, im_width = cols, im_height = rows, im_data = buffer a\<rparr>
           | [rows, cols, c] \<Rightarrow>
               if c = 2
               then Inr \<lparr>im_mode = ModeLA, im_width = cols, im_height = rows, im_data = buffer a\<rparr>
               else if c = 3
               then Inr \<lparr>im_mode = ModeRGB, im_width = cols, im_height = rows, im_data = buffer a\<rparr>
               else if c = 4
               then Inr \<lparr>im_mode = ModeRGBA, im_width = cols, im_height = rows, im_data = buffer a\<rparr>
               else Inl (Foreign TypeError)
           | _ \<Rightarrow> Inl (Foreign TypeError))"

subsection \<open>Integers, checksums and chunks\<close>

text \<open>A number in \<open>k\<close> bytes, most significant first, and back.\<close>

fun be_bytes :: "nat \<Rightarrow> nat \<Rightarrow> bytes" where
  "be_bytes 0 n = []"
| "be_bytes (Suc k) n = be_bytes k (n div 256) @ [of_nat n]"

definition rd_be :: "bytes \<Rightarrow> nat" where
  "rd_be bs = foldl (\<lambda>acc b. acc * 256 + unat b) 0 bs"

text \<open>CRC-32 with the reflected polynomial \<^verbatim>\<open>EDB88320\<close>, bit by bit.\<close>

definition crc_shift :: "32 word \<Rightarrow> 32 word" where
  "crc_shift c = (if bit c 0 then drop_bit 1 c XOR 0xEDB88320 else drop_bit 1 c)"

definition crc_byte :: "32 word \<Rightarrow> 8 word \<Rightarrow> 32 word" where
  "crc_byte c b = (crc_shift ^^ 8) (c XOR ucast b)"

definition crc32 :: "bytes \<Rightarrow> 32 word" where
  "crc32 bs = NOT (foldl crc_byte 0xFFFFFFFF bs)"

text \<open>Adler-32: two sums modulo 65521.\<close>

definition adler_byte :: "nat \<times> nat \<Rightarrow> 8 word \<Rightarrow> nat \<times> nat" where
  "adler_byte s b = (let a = (fst s + unat b) mod 65521 in (a, (snd s + a) mod 65521))"

definition adler32 :: "bytes \<Rightarrow> nat" where
  "adler32 bs = (let s = foldl adler_byte (1, 0) bs in snd s * 65536 + fst s)"

text \<open>A chunk: the length of the data, the type, the data, the CRC-32 of type and data.\<close>

definition chunk :: "bytes \<Rightarrow> bytes \<Rightarrow> bytes" where
  "chunk ty data = be_bytes 4 (length data) @ ty @ data @ be_bytes 4 (unat (crc32 (ty @ data)))"

definition png_signature :: bytes where
  "png_signature = [137, 80, 78, 71, 13, 10, 26, 10]"

definition IHDR :: bytes where
  "IHDR = [73, 72, 68, 82]"

definition IDAT :: bytes where
  "IDAT = [73, 68, 65, 84]"

definition IEND :: bytes where
  "IEND = [73, 69, 78, 68]"

subsection \<open>Encoding\<close>

text \<open>Bytes cut into blocks of a given size, the last one shorter if need be.\<close>

function blocks_of :: "nat \<Rightarrow> bytes \<Rightarrow> bytes list" where
  "blocks_of size' bs =
     (if bs = [] \<or> size' = 0 then []
      else take size' bs # blocks_of size' (drop size' bs))"
  by pat_completeness auto
termination
  by (relation "measure (length \<circ> snd)") auto

declare blocks_of.simps [simp del]

text \<open>
  Deflate in stored blocks: a header byte (1 on the last block), the length and its
  complement in two bytes each, least significant first, and at most 65535 bytes of data.
\<close>

function stored_blocks :: "bytes \<Rightarrow> bytes" where
  "stored_blocks data =
     (if length data \<le> 65535
      then [1, of_nat (length data), of_nat (length data div 256),
            of_nat (65535 - length data), of_nat ((65535 - length data) div 256)] @ data
      else [0, 0xFF, 0xFF, 0, 0] @ take 65535 data @ stored_blocks (drop 65535 data))"
  by pat_completeness auto
termination
  by (relation "measure length") auto

declare stored_blocks.simps [simp del]

definition zlib_compress :: "bytes \<Rightarrow> bytes" where
  "zlib_compress data = [0x78, 0x01] @ stored_blocks data @ be_bytes 4 (adler32 data)"

text \<open>Each row of pixels after a filter byte 0, no filtering.\<close>

fun scanlines :: "nat \<Rightarrow> nat \<Rightarrow> bytes \<Rightarrow> bytes" where
  "scanlines stride 0 px = []"
| "scanlines stride (Suc k) px = 0 # take stride px @ scanlines stride k (drop stride px)"

definition png_bytes :: "pil_image \<Rightarrow> bytes" where
  "png_bytes im =
     png_signature
     @ chunk IHDR (be_bytes 4 (im_width im) @ be_bytes 4 (im_height im)
                   @ [8, colour_type (im_mode im), 0, 0, 0])
     @ concat (map (chunk IDAT)
         (blocks_of 65536
            (zlib_compress
               (scanlines (im_width im * channels (im_mode im)) (im_height im) (im_data im)))))
     @ chunk IEND []"

text \<open>
  Modelled from the spec: \<^verbatim>\<open>image.save(buff, format='PNG')\<close> with
  \<^verbatim>\<open>buff.getvalue()\<close>. PNG has no image with a dimension of zero or beyond
  31 bits; saving such an image raises.
\<close>

definition Image_save_png :: "pil_image \<Rightarrow> error + bytes" where
  "Image_save_png im =
     (if im_width im = 0 \<or> im_height im = 0 \<or> 2 ^ 31 \<le> im_width im \<or> 2 ^ 31 \<le> im_height im
      then Inl (Foreign OtherException)
      else Inr (png_bytes im))"

definition with_pillow :: "('df, pil_image, 'fig) env \<Rightarrow> ('df, pil_image, 'fig) env" where
  "with_pillow E = E\<lparr>fromarray := Image_fromarray, save_png := Image_save_png\<rparr>"

subsection \<open>Decoding\<close>

text \<open>The chunks of a file after its signature, each with its CRC-32 checked.\<close>

function read_chunks :: "bytes \<Rightarrow> (bytes \<times> bytes) list option" where
  "read_chunks bs =
     (if bs = [] then Some []
      else if length bs < 12 then None
      else let n = rd_be (take 4 bs)
           in if length bs < 12 + n then None
              else if rd_be (take 4 (drop (8 + n) bs)) \<noteq> unat (crc32 (take (4 + n) (drop 4 bs)))
                   then None
              else map_option ((#) (take 4 (drop 4 bs), take n (drop 8 bs)))
                     (read_chunks (drop (12 + n) bs)))"
  by pat_completeness auto
termination
  by (relation "measure length") auto

declare read_chunks.simps [simp del]

text \<open>The data of a sequence of stored blocks, and what follows the last block.\<close>

fun inflate_stored :: "bytes \<Rightarrow> (bytes \<times> bytes) option" where
  "inflate_stored (hdr # l0 # l1 # n0 # n1 # rest) =
     (let len = unat l0 + 256 * unat l1; nlen = unat n0 + 256 * unat n1
      in if (hdr \<noteq> 0 \<and> hdr \<noteq> 1) \<or> len + nlen \<noteq> 65535 \<or> length rest < len then None
         else if hdr = 1 then Some (take len rest, drop len rest)
         else map_option (\<lambda>(more, trailer). (take len rest @ more, trailer))
                (inflate_stored (drop len rest)))"
| "inflate_stored _ = None"

definition zlib_decompress :: "bytes \<Rightarrow> bytes option" where
  "zlib_decompress zs =
     (case zs of
        cmf # flg # rest \<Rightarrow>
          if cmf \<noteq> 0x78 \<or> (unat cmf * 256 + unat flg) mod 31 \<noteq> 0 \<or> bit flg 5 then None
          else (case inflate_stored rest of
                  None \<Rightarrow> None
                | Some (data, trailer) \<Rightarrow>
                    if length trailer = 4 \<and> rd_be trailer = adler32 data then Some data else None)
      | _ \<Rightarrow> None)"

fun unfilter :: "nat \<Rightarrow> nat \<Rightarrow> bytes \<Rightarrow> bytes option" where
  "unfilter stride 0 raw = (if raw = [] then Some [] else None)"
| "unfilter stride (Suc k) raw =
     (case raw of
        [] \<Rightarrow> None
      | f # rest \<Rightarrow>
          if f \<noteq> 0 \<or> length rest < stride then None
          else map_option ((@) (take stride rest)) (unfilter stride k (drop stride rest)))"

definition mode_of_colour_type :: "8 word \<Rightarrow> image_mode option" where
  "mode_of_colour_type ct =
     (if ct = 0 then Some ModeL else if ct = 2 then Some ModeRGB
      else if ct = 4 then Some ModeLA else if ct = 6 then Some ModeRGBA else None)"

definition read_header :: "bytes \<Rightarrow> (image_mode \<times> nat \<times> nat) option" where
  "read_header hdr =
     (let w = rd_be (take 4 hdr); h = rd_be (take 4 (drop 4 hdr))
      in if w = 0 \<or> h = 0 \<or> 2 ^ 31 \<le> w \<or> 2 ^ 31 \<le> h then None
         else (case drop 8 hdr of
                 [depth, ct, compression, filter_method, interlace] \<Rightarrow>
                   if depth \<noteq> 8 \<or> compression \<noteq> 0 \<or> filter_method \<noteq> 0 \<or> interlace \<noteq> 0
                   then None
                   else map_option (\<lambda>m. (m, w, h)) (mode_of_colour_type ct)
               | _ \<Rightarrow> None))"

text \<open>
  Modelled from the spec: constructing an image from raw bytes (\<^verbatim>\<open>Image.open\<close>).
  \<open>None\<close> is a file that is not read as a PNG image.
\<close>

definition png_decode :: "bytes \<Rightarrow> pil_image option" where
  "png_decode bs =
     (if take 8 bs \<noteq> png_signature then None
      else case read_chunks (drop 8 bs) of
             Some ((ty, hdr) # cs) \<Rightarrow>
               if ty \<noteq> IHDR \<or> cs = [] \<or> last cs \<noteq> (IEND, []) \<or> butlast cs = []
                  \<or> \<not> list_all (\<lambda>c. fst c = IDAT) (butlast cs)
               then None
               else (case read_header hdr of
                       None \<Rightarrow> None
                     | Some (m, w, h) \<Rightarrow>
                         (case zlib_decompress (concat (map snd (butlast cs))) of
                            None \<Rightarrow> None
                          | Some raw \<Rightarrow>
                              (case unfilter (w * channels m) h raw of
                                 None \<Rightarrow> None
                               | Some px \<Rightarrow>
                                   Some \<lparr>im_mode = m, im_width = w, im_height = h,
                                         im_data = px\<rparr>)))
           | _ \<Rightarrow> None)"

section \<open>A small world to run the builder in\<close>

text \<open>
  Collaborators simple enough to evaluate: a table is its markup, a decoded image is
  its width and height, its encoding the two as bytes, a figure is its markup, to which
  the runtime is added according to the mode. The file system holds the stylesheet and
  one image file; the figure \<open>''broken''\<close> cannot be rendered.
\<close>

definition toy_env :: "(string, nat \<times> nat, string) env" where
  \<open>toy_env =
     \<lparr>df_to_html = (\<lambda>t. Inr (''<table>'' @ t @ ''</table>'')),
      fromarray = (\<lambda>a. case shape a of
                           h # w # _ \<Rightarrow> Inr (w, h)
                         | _ \<Rightarrow> Inl (Foreign OtherException)),
      save_png = (\<lambda>(w, h). Inr [of_nat w, of_nat h]),
      read_binary = (\<lambda>p. if p = ''man.png'' then Inr [0x4D, 0x61, 0x6E]
                          else Inl (Foreign OSError)),
      read_text = (\<lambda>p. if p = ''style.css'' then Inr ''body {}'' else Inl (Foreign OSError)),
      write_text = (\<lambda>p s. None),
      plotly_to_html = (\<lambda>f m. if f = ''broken'' then Inl (Foreign OtherException)
                               else if m = PyBool True then Inr (''<script>plotly.js</script>'' @ f)
                               else if m = PyStr ''cdn'' then Inr (''<script src="cdn"></script>'' @ f)
                               else Inr f),
      style_filepath = ''style.css''\<rparr>\<close>

text \<open>The same world with the image collaborator of the model.\<close>

definition pillow_env :: "(string, pil_image, string) env" where
  \<open>pillow_env =
     \<lparr>df_to_html = (\<lambda>t. Inr (''<table>'' @ t @ ''</table>'')),
      fromarray = Image_fromarray,
      save_png = Image_save_png,
      read_binary = (\<lambda>p. if p = ''man.png'' then Inr [0x4D, 0x61, 0x6E]
                          else Inl (Foreign OSError)),
      read_text = (\<lambda>p. if p = ''style.css'' then Inr ''body {}'' else Inl (Foreign OSError)),
      write_text = (\<lambda>p s. None),
      plotly_to_html = (\<lambda>f m. Inr f),
      style_filepath = ''style.css''\<rparr>\<close>

definition doc0 :: document where
  "doc0 = \<lparr>style = ''body {}'', title = ''HTMLDocument'', head = [], body = [],
           is_plotlyjs_included = False\<rparr>"

definition float_image :: ndarray where
  "float_image = \<lparr>dtype = Float64, shape = [2, 2], buffer = []\<rparr>"

definition float_vector :: ndarray where
  "float_vector = \<lparr>dtype = Float64, shape = [4], buffer = []\<rparr>"

definition byte_vector :: ndarray where
  "byte_vector = \<lparr>dtype = UInt8, shape = [4], buffer = [1, 2, 3, 4]\<rparr>"

definition byte_hypercube :: ndarray where
  "byte_hypercube = \<lparr>dtype = UInt8, shape = [1, 1, 1, 1], buffer = [7]\<rparr>"

definition rgb_image :: ndarray where
  "rgb_image = \<lparr>dtype = UInt8, shape = [2, 2, 3], buffer = [0, 0, 0, 1, 1, 1, 2, 2, 2, 3, 3, 3]\<rparr>"

section \<open>Base64 decoding inverts encoding\<close>

lemma b64_index_char: "n < 64 \<Longrightarrow> b64_index (b64_char n) = Some n"
proof -
  have "\<forall>n \<in> set [0 ..< 64]. b64_index (b64_char n) = Some n"
    by code_simp
  then show "n < 64 \<Longrightarrow> b64_index (b64_char n) = Some n" by simp
qed

lemma b64_char_not_pad: "n < 64 \<Longrightarrow> b64_char n \<noteq> CHR ''=''"
proof -
  have "\<forall>n \<in> set [0 ..< 64]. b64_char n \<noteq> CHR ''=''"
    by code_simp
  then show "n < 64 \<Longrightarrow> b64_char n \<noteq> CHR ''=''" by simp
qed

lemma unat_byte_less: "unat (a :: 8 word) < 256"
  using unsigned_less [of a, where ?'a = nat] by simp

lemma sextet1: "x < 256 \<Longrightarrow> x div 4 < (64::nat)"
  by simp

lemma sextet2: "y < 256 \<Longrightarrow> (x mod 4) * 16 + y div 16 < (64::nat)"
proof -
  assume "y < 256"
  then have "y div 16 < 16" by simp
  moreover have "x mod 4 < 4" by simp
  ultimately show ?thesis by linarith
qed

lemma sextet2_pad: "(x mod 4) * 16 < (64::nat)"
proof -
  have "x mod 4 < 4" by simp
  then show ?thesis by linarith
qed

lemma sextet3: "z < 256 \<Longrightarrow> (y mod 16) * 4 + z div 64 < (64::nat)"
proof -
  assume "z < 256"
  then have "z div 64 < 4" by simp
  moreover have "y mod 16 < 16" by simp
  ultimately show ?thesis by linarith
qed

lemma sextet3_pad: "(y mod 16) * 4 < (64::nat)"
proof -
  have "y mod 16 < 16" by simp
  then show ?thesis by linarith
qed

lemma join1: "y < 256 \<Longrightarrow> (x div 4) * 4 + ((x mod 4) * 16 + y div 16) div 16 = (x::nat)"
proof -
  assume "y < 256"
  then have "y div 16 < 16" by simp
  then have "((x mod 4) * 16 + y div 16) div 16 = x mod 4" by simp
  then show ?thesis by simp
qed

lemma join1_pad: "(x div 4) * 4 + ((x mod 4) * 16) div 16 = (x::nat)"
  by simp

lemma join2:
  "y < 256 \<Longrightarrow> z < 256 \<Longrightarrow>
   (((x mod 4) * 16 + y div 16) mod 16) * 16 + ((y mod 16) * 4 + z div 64) div 4 = (y::nat)"
proof -
  assume "y < 256" and "z < 256"
  then have "y div 16 < 16" and "z div 64 < 4" by simp_all
  then have "((x mod 4) * 16 + y div 16) mod 16 = y div 16"
    and "((y mod 16) * 4 + z div 64) div 4 = y mod 16" by simp_all
  then show ?thesis by simp
qed

lemma join2_pad:
  "y < 256 \<Longrightarrow> (((x mod 4) * 16 + y div 16) mod 16) * 16 + ((y mod 16) * 4) div 4 = (y::nat)"
proof -
  assume "y < 256"
  then have "y div 16 < 16" by simp
  then have "((x mod 4) * 16 + y div 16) mod 16 = y div 16" by simp
  then show ?thesis by simp
qed

lemma join3: "z < 256 \<Longrightarrow> (((y mod 16) * 4 + z div 64) mod 4) * 64 + z mod 64 = (z::nat)"
proof -
  assume "z < 256"
  then have "z div 64 < 4" by simp
  then have "((y mod 16) * 4 + z div 64) mod 4 = z div 64" by simp
  then show ?thesis by simp
qed


lemma word_of_unat_byte: "n = unat (a :: 8 word) \<Longrightarrow> of_nat n = a"
  by simp

lemma b64decode_encode: "b64decode (b64encode bs) = Some bs"
proof (induction bs rule: b64encode.induct)
  case 1
  show ?case by simp
next
  case (2 a)
  define n1 where "n1 = unat a div 4"
  define n2 where "n2 = (unat a mod 4) * 16"
  have lt: "n1 < 64" "n2 < 64"
    by (simp_all add: n1_def n2_def sextet1 sextet2_pad unat_byte_less)
  have enc: "b64encode [a] = [b64_char n1, b64_char n2, CHR ''='', CHR ''='']"
    by (simp add: Let_def n1_def n2_def)
  have "n1 * 4 + n2 div 16 = unat a"
    unfolding n1_def n2_def by (rule join1_pad)
  then have byte: "(of_nat (n1 * 4 + n2 div 16) :: 8 word) = a"
    by (rule word_of_unat_byte)
  show ?case
    unfolding enc by (simp add: b64_index_char lt byte del: of_nat_add of_nat_mult)
next
  case (3 a b)
  define n1 where "n1 = unat a div 4"
  define n2 where "n2 = (unat a mod 4) * 16 + unat b div 16"
  define n3 where "n3 = (unat b mod 16) * 4"
  have lt: "n1 < 64" "n2 < 64" "n3 < 64"
    by (simp_all add: n1_def n2_def n3_def sextet1 sextet2 sextet3_pad unat_byte_less)
  have enc: "b64encode [a, b] = [b64_char n1, b64_char n2, b64_char n3, CHR ''='']"
    by (simp add: Let_def n1_def n2_def n3_def)
  have "n1 * 4 + n2 div 16 = unat a"
    unfolding n1_def n2_def by (rule join1) (rule unat_byte_less)
  then have byte1: "(of_nat (n1 * 4 + n2 div 16) :: 8 word) = a"
    by (rule word_of_unat_byte)
  have "(n2 mod 16) * 16 + n3 div 4 = unat b"
    unfolding n2_def n3_def by (rule join2_pad) (rule unat_byte_less)
  then have byte2: "(of_nat ((n2 mod 16) * 16 + n3 div 4) :: 8 word) = b"
    by (rule word_of_unat_byte)
  show ?case
    unfolding enc by (simp add: b64_index_char b64_char_not_pad lt byte1 byte2 del: of_nat_add of_nat_mult)
next
  case (4 a b c rest)
  define n1 where "n1 = unat a div 4"
  define n2 where "n2 = (unat a mod 4) * 16 + unat b div 16"
  define n3 where "n3 = (unat b mod 16) * 4 + unat c div 64"
  define n4 where "n4 = unat c mod 64"
  have lt: "n1 < 64" "n2 < 64" "n3 < 64" "n4 < 64"
    by (simp_all add: n1_def n2_def n3_def n4_def sextet1 sextet2 sextet3 unat_byte_less)
  have enc: "b64encode (a # b # c # rest) =
      b64_char n1 # b64_char n2 # b64_char n3 # b64_char n4 # b64encode rest"
    by (simp add: Let_def n1_def n2_def n3_def n4_def)
  have "n1 * 4 + n2 div 16 = unat a"
    unfolding n1_def n2_def by (rule join1) (rule unat_byte_less)
  then have byte1: "(of_nat (n1 * 4 + n2 div 16) :: 8 word) = a"
    by (rule word_of_unat_byte)
  have "(n2 mod 16) * 16 + n3 div 4 = unat b"
    unfolding n2_def n3_def by (rule join2) (rule unat_byte_less)+
  then have byte2: "(of_nat ((n2 mod 16) * 16 + n3 div 4) :: 8 word) = b"
    by (rule word_of_unat_byte)
  have "(n3 mod 4) * 64 + n4 = unat c"
    unfolding n3_def n4_def by (rule join3) (rule unat_byte_less)
  then have byte3: "(of_nat ((n3 mod 4) * 64 + n4) :: 8 word) = c"
    by (rule word_of_unat_byte)
  show ?case
    unfolding enc by (simp add: b64_index_char b64_char_not_pad lt byte1 byte2 byte3 "4.IH"
        del: of_nat_add of_nat_mult)
qed

section \<open>What each method changes\<close>

lemma strict_prefix_append_iff: "strict_prefix xs (xs @ ys) \<longleftrightarrow> ys \<noteq> []"
  by (simp add: strict_prefix_def)

lemma add_image_tag_body:
  "body (add_image_tag d src t h w p) = body d @ img_tag_spec src t h w p"
  by (simp add: add_image_tag_def img_tag_spec_def Let_def)

lemma add_image_tag_frame:
  "style (add_image_tag d src t h w p) = style d"
  "title (add_image_tag d src t h w p) = title d"
  "head (add_image_tag d src t h w p) = head d"
  "is_plotlyjs_included (add_image_tag d src t h w p) = is_plotlyjs_included d"
  by (simp_all add: add_image_tag_def Let_def)

lemma img_tag_spec_not_empty: "img_tag_spec src t h w p \<noteq> []"
  by (simp add: img_tag_spec_def)

lemma add_table_frame:
  "style (snd (add_table E d x)) = style d"
  "title (snd (add_table E d x)) = title d"
  "head (snd (add_table E d x)) = head d"
  "is_plotlyjs_included (snd (add_table E d x)) = is_plotlyjs_included d"
  by (simp_all add: add_table_def split: pyobj.splits sum.splits)

lemma add_table_body:
  "(fst (add_table E d x) \<noteq> None \<and> snd (add_table E d x) = d) \<or>
   (fst (add_table E d x) = None \<and> strict_prefix (body d) (body (snd (add_table E d x))))"
  by (simp add: add_table_def strict_prefix_append_iff split: pyobj.splits sum.splits)

lemma add_image_frame:
  "style (snd (add_image E d x t h w p)) = style d"
  "title (snd (add_image E d x t h w p)) = title d"
  "head (snd (add_image E d x t h w p)) = head d"
  "is_plotlyjs_included (snd (add_image E d x t h w p)) = is_plotlyjs_included d"
  by (simp_all add: add_image_def add_image_tag_frame Let_def split: sum.splits)

lemma add_image_body:
  "(fst (add_image E d x t h w p) \<noteq> None \<and> snd (add_image E d x t h w p) = d) \<or>
   (fst (add_image E d x t h w p) = None \<and>
    strict_prefix (body d) (body (snd (add_image E d x t h w p))))"
  by (simp add: add_image_def add_image_tag_body img_tag_spec_not_empty Let_def
      strict_prefix_append_iff split: sum.splits)

lemma add_image_link_frame:
  "style (snd (add_image_link d x t h w p)) = style d"
  "title (snd (add_image_link d x t h w p)) = title d"
  "head (snd (add_image_link d x t h w p)) = head d"
  "is_plotlyjs_included (snd (add_image_link d x t h w p)) = is_plotlyjs_included d"
  by (simp_all add: add_image_link_def add_image_tag_frame split: pyobj.splits)

lemma add_image_link_body:
  "(fst (add_image_link d x t h w p) \<noteq> None \<and> snd (add_image_link d x t h w p) = d) \<or>
   (fst (add_image_link d x t h w p) = None \<and>
    strict_prefix (body d) (body (snd (add_image_link d x t h w p))))"
  by (simp add: add_image_link_def add_image_tag_body img_tag_spec_not_empty
      strict_prefix_append_iff split: pyobj.splits)

lemma add_plotly_figure_frame:
  "style (snd (add_plotly_figure E d x q)) = style d"
  "title (snd (add_plotly_figure E d x q)) = title d"
  "head (snd (add_plotly_figure E d x q)) = head d"
  "is_plotlyjs_included d \<Longrightarrow> is_plotlyjs_included (snd (add_plotly_figure E d x q))"
  by (simp_all add: add_plotly_figure_def split: pyobj.splits sum.splits)

lemma add_plotly_figure_body:
  "(fst (add_plotly_figure E d x q) \<noteq> None \<and> body (snd (add_plotly_figure E d x q)) = body d) \<or>
   (fst (add_plotly_figure E d x q) = None \<and>
    strict_prefix (body d) (body (snd (add_plotly_figure E d x q))))"
  by (simp add: add_plotly_figure_def strict_prefix_append_iff split: pyobj.splits sum.splits)

lemma step_body:
  "(body (snd (step E d c)) = body d \<and> (is_append c \<longrightarrow> fst (step E d c) \<noteq> None)) \<or>
   (fst (step E d c) = None \<and> strict_prefix (body d) (body (snd (step E d c))))"
proof (cases c)
  case (AddTable x)
  then show ?thesis using add_table_body [of E d x] by auto
next
  case (AddImage x t h w p)
  then show ?thesis using add_image_body [of E d x t h w p] by auto
next
  case (AddImageLink x t h w p)
  then show ?thesis using add_image_link_body [of d x t h w p] by auto
next
  case (AddPlotlyFigure x q)
  then show ?thesis using add_plotly_figure_body [of E d x q] by auto
qed (simp_all add: add_header_def add_text_def add_line_break_def add_page_break_def
      set_style_def set_title_def write'_def strict_prefix_append_iff)

lemma step_head: "head (snd (step E d c)) = head d"
  by (cases c)
    (simp_all add: add_header_def add_text_def add_line_break_def add_page_break_def
      set_style_def set_title_def write'_def add_table_frame add_image_frame
      add_image_link_frame add_plotly_figure_frame)

lemma step_flag: "is_plotlyjs_included d \<Longrightarrow> is_plotlyjs_included (snd (step E d c))"
  by (cases c)
    (simp_all add: add_header_def add_text_def add_line_break_def add_page_break_def
      set_style_def set_title_def write'_def add_table_frame add_image_frame
      add_image_link_frame add_plotly_figure_frame)

lemma step_body_prefix: "prefix (body d) (body (snd (step E d c)))"
  using step_body [of E d c] by auto

lemma run_head: "head (run E d cs) = head d"
  by (induction cs arbitrary: d) (simp_all add: step_head)

lemma run_body_prefix: "prefix (body d) (body (run E d cs))"
proof (induction cs arbitrary: d)
  case Nil
  show ?case by simp
next
  case (Cons c cs)
  have "prefix (body d) (body (snd (step E d c)))" by (rule step_body_prefix)
  also have "prefix \<dots> (body (run E (snd (step E d c)) cs))" by (rule Cons.IH)
  finally show ?case by simp
qed

lemma run_flag: "is_plotlyjs_included d \<Longrightarrow> is_plotlyjs_included (run E d cs)"
  by (induction cs arbitrary: d) (simp_all add: step_flag)

section \<open>Serialization\<close>

text \<open>
  C1. For every document, \<open>render\<close> (\<^verbatim>\<open>__str__\<close>) returns the page template of the
  specification with the current title, style, head and body put in place of the four
  placeholders, each as it is, with no escaping: the same tags in the same order, the
  same whitespace and newlines, character for character. The second equation spells
  the string out.
\<close>

theorem render_exact:
  \<open>render d = substitute (fields_of d) page_template \<and>
   render d =
     ''<!DOCTYPE html>\<newline><html lang="en">\<newline><head>\<newline><meta charset="UTF-8">\<newline><title>''
     @ title d @ ''</title>\<newline><style type="text/css">\<newline>''
     @ style d @ ''</style>\<newline>''
     @ head d @ ''</head>\<newline><body>\<newline>''
     @ body d @ ''</body>\<newline></html>\<newline>''\<close>
  by (simp add: render_def fields_of_def page_template_def)

text \<open>
  C8. Serialization is a function of the four string fields: two documents that agree on
  title, style, head and body render to the same string, whatever their flag
  \<open>is_plotlyjs_included\<close>. Rendering does not change the document, so rendering twice
  gives the same string twice.
\<close>

theorem render_pure:
  "title a = title b \<Longrightarrow> style a = style b \<Longrightarrow> head a = head b \<Longrightarrow> body a = body b
     \<Longrightarrow> render a = render b"
  by (simp add: render_def)

theorem render_pure_witness:
  "render (doc0\<lparr>is_plotlyjs_included := True\<rparr>) = render doc0
   \<and> doc0\<lparr>is_plotlyjs_included := True\<rparr> \<noteq> doc0"
proof
  show "render (doc0\<lparr>is_plotlyjs_included := True\<rparr>) = render doc0"
    by (rule render_pure) simp_all
  show "doc0\<lparr>is_plotlyjs_included := True\<rparr> \<noteq> doc0"
    by (simp add: doc0_def)
qed

section \<open>The head fragment\<close>

lemma init_head: "init E class_name = Inr d \<Longrightarrow> head d = []"
  by (auto simp: init_def set_default_style_def set_style_def split: sum.splits)

text \<open>
  C9. The head field is empty in a document just constructed, and no method changes it:
  after any sequence of calls on a constructed document, including calls that raised,
  the head is empty, and the head section of the rendered page holds only the meta,
  title and style parts.
\<close>

theorem head_stays_empty:
  \<open>init E class_name = Inr d \<Longrightarrow>
   head (run E d cs) = [] \<and>
   render (run E d cs) =
     ''<!DOCTYPE html>\<newline><html lang="en">\<newline><head>\<newline><meta charset="UTF-8">\<newline><title>''
     @ title (run E d cs) @ ''</title>\<newline><style type="text/css">\<newline>''
     @ style (run E d cs) @ ''</style>\<newline></head>\<newline><body>\<newline>''
     @ body (run E d cs) @ ''</body>\<newline></html>\<newline>''\<close>
  by (simp add: render_def run_head init_head)

theorem head_stays_empty_witness:
  \<open>new_document toy_env = Inr doc0 \<and>
   head (run toy_env doc0
          [SetTitle ''Report'', AddHeader ''Results'' ''h2'' ''left'',
           AddTable (Str ''plain''), AddPlotlyFigure (Figure ''fig'') True]) = []\<close>
proof -
  have new: "init toy_env ''HTMLDocument'' = Inr doc0"
    by (simp add: init_def set_default_style_def set_style_def toy_env_def doc0_def)
  have "head (run toy_env doc0
          [SetTitle ''Report'', AddHeader ''Results'' ''h2'' ''left'',
           AddTable (Str ''plain''), AddPlotlyFigure (Figure ''fig'') True]) = []"
    using head_stays_empty [OF new] by (rule conjunct1)
  with new show ?thesis
    by (simp only: new_document_def simp_thms)
qed

section \<open>The image tag\<close>

text \<open>
  C6. Every call of the shared image-tag renderer \<open>add_image_tag\<close>, hence every successful
  \<open>add_image\<close> and \<open>add_image_link\<close>, appends to the body exactly the tag of the
  specification followed by a newline: the \<^verbatim>\<open>title\<close>, \<^verbatim>\<open>height\<close> and
  \<^verbatim>\<open>width\<close> parts are present exactly when their argument is truthy and are left
  out entirely otherwise, and the pixelated suffix is present exactly when the flag is
  true. The last three equations show the tag with nothing optional, with falsy values
  given, and with every option.
\<close>

theorem image_tag_format:
  \<open>body (add_image_tag d src t h w p) = body d @ img_tag_spec src t h w p
   \<and> (add_image E d x t h w p = (None, d') \<longrightarrow>
        (\<exists>src. body d' = body d @ img_tag_spec src t h w p))
   \<and> (add_image_link d y t h w p = (None, d'') \<longrightarrow>
        (\<exists>src. body d'' = body d @ img_tag_spec src t h w p))
   \<and> img_tag_spec src PyNone PyNone PyNone False =
        ''<img src="'' @ src @ ''" style="border:1px solid #021a40; margin: 3px 3px">\<newline>''
   \<and> img_tag_spec src (PyStr '''') (PyInt 0) (PyStr '''') False =
        ''<img src="'' @ src @ ''" style="border:1px solid #021a40; margin: 3px 3px">\<newline>''
   \<and> img_tag_spec src (PyStr ''X'') (PyInt 50) (PyStr ''50%'') True =
        ''<img src="'' @ src @ ''" title="X" height=50 width=50% style="border:1px solid #021a40; margin: 3px 3px; image-rendering: pixelated">\<newline>''\<close>
proof (intro conjI impI)
  show "body (add_image_tag d src t h w p) = body d @ img_tag_spec src t h w p"
    by (rule add_image_tag_body)
next
  assume "add_image E d x t h w p = (None, d')"
  then show "\<exists>src. body d' = body d @ img_tag_spec src t h w p"
    by (auto simp: add_image_def add_image_tag_body Let_def split: sum.splits)
next
  assume "add_image_link d y t h w p = (None, d'')"
  then show "\<exists>src. body d'' = body d @ img_tag_spec src t h w p"
    by (auto simp: add_image_link_def add_image_tag_body split: pyobj.splits)
qed (simp_all add: img_tag_spec_def str_int_def digit_char_def)

theorem image_tag_format_witness:
  \<open>add_image toy_env doc0 (Str ''man.png'') PyNone (PyInt 50) PyNone False
     = (None, doc0\<lparr>body := ''<img src="data:image/png;base64, TWFu" height=50 style="border:1px solid #021a40; margin: 3px 3px">\<newline>''\<rparr>)
   \<and> add_image_link doc0 (Path ''a.png'' :: (string, nat \<times> nat, string) pyobj) (PyStr ''X'') PyNone PyNone True
     = (None, doc0\<lparr>body := ''<img src="a.png" title="X" style="border:1px solid #021a40; margin: 3px 3px; image-rendering: pixelated">\<newline>''\<rparr>)
   \<and> (\<exists>src. ''<img src="data:image/png;base64, TWFu" height=50 style="border:1px solid #021a40; margin: 3px 3px">\<newline>''
         = img_tag_spec src PyNone (PyInt 50) PyNone False)\<close>
proof -
  let ?d' = \<open>doc0\<lparr>body := ''<img src="data:image/png;base64, TWFu" height=50 style="border:1px solid #021a40; margin: 3px 3px">\<newline>''\<rparr>\<close>
  have a: "add_image toy_env doc0 (Str ''man.png'') PyNone (PyInt 50) PyNone False = (None, ?d')"
    by (simp add: add_image_def encode_image_def toy_env_def add_image_tag_def doc0_def Let_def
        b64_char_def b64_alphabet_def str_int_def digit_char_def)
  have b: \<open>add_image_link doc0 (Path ''a.png'' :: (string, nat \<times> nat, string) pyobj) (PyStr ''X'') PyNone PyNone True
     = (None, doc0\<lparr>body := ''<img src="a.png" title="X" style="border:1px solid #021a40; margin: 3px 3px; image-rendering: pixelated">\<newline>''\<rparr>)\<close>
    by (simp add: add_image_link_def add_image_tag_def doc0_def Let_def)
  from image_tag_format [of doc0 _ PyNone "PyInt 50" PyNone False toy_env "Str ''man.png''" ?d']
  have "add_image toy_env doc0 (Str ''man.png'') PyNone (PyInt 50) PyNone False = (None, ?d') \<longrightarrow>
        (\<exists>src. body ?d' = body doc0 @ img_tag_spec src PyNone (PyInt 50) PyNone False)"
    by blast
  with a have "\<exists>src. body ?d' = body doc0 @ img_tag_spec src PyNone (PyInt 50) PyNone False"
    by blast
  then have "\<exists>src. ''<img src=\"data:image/png;base64, TWFu\" height=50 style=\"border:1px solid #021a40; margin: 3px 3px\">\<newline>''
         = img_tag_spec src PyNone (PyInt 50) PyNone False"
    by (simp add: doc0_def)
  with a b show ?thesis by blast
qed

section \<open>The body only grows\<close>

text \<open>
  C7. A successful call of an append method (\<open>add_header\<close>, \<open>add_text\<close>,
  \<open>add_line_break\<close>, \<open>add_page_break\<close>, \<open>add_table\<close>, \<open>add_image\<close>,
  \<open>add_image_link\<close>, \<open>add_plotly_figure\<close>) leaves the body it found as a prefix of
  the new body and adds a non-empty suffix; whatever the call and however it ends, the old
  body is a prefix of the new one; and so it is after any sequence of calls.
\<close>

theorem body_only_grows:
  "(is_append c \<and> fst (step E d c) = None \<longrightarrow>
      (\<exists>s. s \<noteq> [] \<and> body (snd (step E d c)) = body d @ s))
   \<and> prefix (body d) (body (snd (step E d c)))
   \<and> prefix (body d) (body (run E d cs))"
proof (intro conjI impI)
  assume "is_append c \<and> fst (step E d c) = None"
  with step_body [of E d c] have "strict_prefix (body d) (body (snd (step E d c)))"
    by auto
  then obtain z zs where "body (snd (step E d c)) = body d @ z # zs"
    by (rule strict_prefixE')
  then show "\<exists>s. s \<noteq> [] \<and> body (snd (step E d c)) = body d @ s"
    by blast
next
  show "prefix (body d) (body (snd (step E d c)))"
    by (rule step_body_prefix)
next
  show "prefix (body d) (body (run E d cs))"
    by (rule run_body_prefix)
qed

theorem body_only_grows_witness:
  \<open>is_append (AddLineBreak :: (string, nat \<times> nat, string) call)
   \<and> fst (step toy_env doc0 AddLineBreak) = None
   \<and> (\<exists>s. s \<noteq> [] \<and> body (snd (step toy_env doc0 AddLineBreak)) = body doc0 @ s)
   \<and> body (snd (step toy_env doc0 AddLineBreak)) = ''<br>\<newline>''\<close>
proof -
  have a: "is_append (AddLineBreak :: (string, nat \<times> nat, string) call)
      \<and> fst (step toy_env doc0 AddLineBreak) = None"
    by simp
  have b: \<open>body (snd (step toy_env doc0 AddLineBreak)) = ''<br>\<newline>''\<close>
    by (simp add: add_line_break_def doc0_def)
  from body_only_grows [of AddLineBreak toy_env doc0 "[]"] a
  have "\<exists>s. s \<noteq> [] \<and> body (snd (step toy_env doc0 AddLineBreak)) = body doc0 @ s"
    by blast
  with a b show ?thesis by blast
qed

section \<open>Failures\<close>

text \<open>
  C3. An invalid argument is refused before anything is changed: \<open>add_table\<close> on what is
  not a DataFrame, \<open>add_image_link\<close> on what is neither a path nor a string,
  \<open>add_plotly_figure\<close> on what is not a figure, and \<open>add_image\<close> on an array of the
  wrong dtype or dimensionality or on an unsupported type of image source, all return
  their exception together with the very document they were given: title, style, head,
  body and flag are as before, and nothing has been appended.
\<close>

theorem invalid_argument_leaves_document:
  "((\<forall>t. x \<noteq> DataFrame t) \<longrightarrow> add_table E d x = (Some DfNotDataFrame, d))
   \<and> ((\<forall>s. x \<noteq> Path s) \<and> (\<forall>s. x \<noteq> Str s) \<longrightarrow>
        add_image_link d x t h w p = (Some ImageLinkNotPathOrStr, d))
   \<and> ((\<forall>f. x \<noteq> Figure f) \<longrightarrow> add_plotly_figure E d x q = (Some FigNotFigure, d))
   \<and> (dtype a \<noteq> UInt8 \<or> (ndim a \<noteq> 2 \<and> ndim a \<noteq> 3) \<longrightarrow>
        (\<exists>e. add_image E d (NdArray a) t h w p = (Some e, d)))
   \<and> ((\<forall>a. x \<noteq> NdArray a) \<and> (\<forall>i. x \<noteq> PILImage i) \<and> (\<forall>s. x \<noteq> Path s) \<and> (\<forall>s. x \<noteq> Str s) \<longrightarrow>
        add_image E d x t h w p = (Some ImageTypeUnsupported, d))"
proof (intro conjI impI)
  assume "\<forall>t. x \<noteq> DataFrame t"
  then show "add_table E d x = (Some DfNotDataFrame, d)"
    by (cases x) (simp_all add: add_table_def)
next
  assume "(\<forall>s. x \<noteq> Path s) \<and> (\<forall>s. x \<noteq> Str s)"
  then show "add_image_link d x t h w p = (Some ImageLinkNotPathOrStr, d)"
    by (cases x) (simp_all add: add_image_link_def)
next
  assume "\<forall>f. x \<noteq> Figure f"
  then show "add_plotly_figure E d x q = (Some FigNotFigure, d)"
    by (cases x) (simp_all add: add_plotly_figure_def)
next
  assume "dtype a \<noteq> UInt8 \<or> (ndim a \<noteq> 2 \<and> ndim a \<noteq> 3)"
  then show "\<exists>e. add_image E d (NdArray a) t h w p = (Some e, d)"
    by (auto simp: add_image_def encode_image_def)
next
  assume "(\<forall>a. x \<noteq> NdArray a) \<and> (\<forall>i. x \<noteq> PILImage i) \<and> (\<forall>s. x \<noteq> Path s) \<and> (\<forall>s. x \<noteq> Str s)"
  then show "add_image E d x t h w p = (Some ImageTypeUnsupported, d)"
    by (cases x) (simp_all add: add_image_def encode_image_def)
qed

theorem invalid_argument_leaves_document_witness:
  "add_table toy_env doc0 (Str ''plain'') = (Some DfNotDataFrame, doc0)
   \<and> add_image_link doc0 (OtherObject (PyInt 3) :: (string, nat \<times> nat, string) pyobj)
        PyNone PyNone PyNone False = (Some ImageLinkNotPathOrStr, doc0)
   \<and> add_plotly_figure toy_env doc0 (OtherObject (PyInt 3)) True = (Some FigNotFigure, doc0)
   \<and> (\<exists>e. add_image toy_env doc0 (NdArray float_image) PyNone PyNone PyNone False = (Some e, doc0))
   \<and> (\<exists>e. add_image toy_env doc0 (NdArray byte_hypercube) PyNone PyNone PyNone False = (Some e, doc0))
   \<and> add_image toy_env doc0 (OtherObject (PyInt 3)) PyNone PyNone PyNone False
        = (Some ImageTypeUnsupported, doc0)"
  using invalid_argument_leaves_document
      [of "Str ''plain''" toy_env doc0 PyNone PyNone PyNone False True float_image]
    invalid_argument_leaves_document
      [of "OtherObject (PyInt 3)" toy_env doc0 PyNone PyNone PyNone False True byte_hypercube]
  by (simp add: float_image_def byte_hypercube_def ndim_def)

text \<open>
  C10. When \<open>add_plotly_figure\<close> is given a figure, the flag is false and the runtime is
  requested inline, the flag is set before the chart collaborator is called. If the
  collaborator then raises, the call ends with that exception, the body is as before, and
  the flag is true: a failure of the collaborator leaves the body unchanged, not the flag.
\<close>

theorem flag_set_before_rendering:
  "\<not> is_plotlyjs_included d \<Longrightarrow> plotly_to_html E f (PyBool True) = Inl e \<Longrightarrow>
     add_plotly_figure E d (Figure f) True = (Some e, d\<lparr>is_plotlyjs_included := True\<rparr>)
     \<and> body (snd (add_plotly_figure E d (Figure f) True)) = body d
     \<and> is_plotlyjs_included (snd (add_plotly_figure E d (Figure f) True))
     \<and> snd (add_plotly_figure E d (Figure f) True) \<noteq> d"
proof -
  assume flag: "\<not> is_plotlyjs_included d" and fails: "plotly_to_html E f (PyBool True) = Inl e"
  then have eq: "add_plotly_figure E d (Figure f) True = (Some e, d\<lparr>is_plotlyjs_included := True\<rparr>)"
    by (simp add: add_plotly_figure_def)
  have "is_plotlyjs_included (d\<lparr>is_plotlyjs_included := True\<rparr>)" by simp
  with flag have "d\<lparr>is_plotlyjs_included := True\<rparr> \<noteq> d" by metis
  with eq show ?thesis by simp
qed

theorem flag_set_before_rendering_witness:
  "\<not> is_plotlyjs_included doc0
   \<and> plotly_to_html toy_env ''broken'' (PyBool True) = Inl (Foreign OtherException)
   \<and> add_plotly_figure toy_env doc0 (Figure ''broken'') True
       = (Some (Foreign OtherException), doc0\<lparr>is_plotlyjs_included := True\<rparr>)"
proof -
  have a: "\<not> is_plotlyjs_included doc0" by (simp add: doc0_def)
  have b: "plotly_to_html toy_env ''broken'' (PyBool True) = Inl (Foreign OtherException)"
    by (simp add: toy_env_def)
  from flag_set_before_rendering [OF a b] a b show ?thesis by blast
qed

text \<open>
  Against C5 as stated, which gives the dtype failure the kind of the invalid-argument
  failures and the dimensionality failure a kind of its own: a one-dimensional array of
  floats fails with the dtype exception, not the dimensionality one; the two exceptions
  are of one class; and that class is not the class of the exception that \<open>add_table\<close>
  raises for an invalid argument.
\<close>

theorem pixel_array_kinds_counterexample:
  "add_image toy_env doc0 (NdArray float_vector) PyNone PyNone PyNone False
      = (Some DtypeNotUint8, doc0)
   \<and> ndim float_vector = 1
   \<and> DtypeNotUint8 \<noteq> NdimNot2Or3
   \<and> add_image toy_env doc0 (NdArray byte_vector) PyNone PyNone PyNone False
      = (Some NdimNot2Or3, doc0)
   \<and> exc_class_of DtypeNotUint8 = exc_class_of NdimNot2Or3
   \<and> add_table toy_env doc0 (Str ''plain'') = (Some DfNotDataFrame, doc0)
   \<and> exc_class_of DtypeNotUint8 \<noteq> exc_class_of DfNotDataFrame"
  by (simp add: add_image_def encode_image_def add_table_def float_vector_def byte_vector_def
      ndim_def)

text \<open>
  C5, amended. For \<open>add_image\<close> on a pixel array: if the dtype is not uint8 the call
  raises the dtype exception, whatever the dimensionality; if the dtype is uint8 and the
  dimensionality is neither 2 nor 3 the call raises the dimensionality exception; both
  exceptions are of the class \<^verbatim>\<open>RuntimeError\<close>, which is not the class
  \<^verbatim>\<open>TypeError\<close> of the exceptions raised for an argument of the wrong type; in
  both cases the document is returned as it was.
\<close>

theorem pixel_array_errors:
  "(dtype a \<noteq> UInt8 \<longrightarrow>
      add_image E d (NdArray a) t h w p = (Some DtypeNotUint8, d))
   \<and> (dtype a = UInt8 \<and> ndim a \<noteq> 2 \<and> ndim a \<noteq> 3 \<longrightarrow>
      add_image E d (NdArray a) t h w p = (Some NdimNot2Or3, d))
   \<and> exc_class_of DtypeNotUint8 = RuntimeError
   \<and> exc_class_of NdimNot2Or3 = RuntimeError
   \<and> RuntimeError \<noteq> TypeError
   \<and> exc_class_of DfNotDataFrame = TypeError
   \<and> exc_class_of ImageLinkNotPathOrStr = TypeError
   \<and> exc_class_of FigNotFigure = TypeError
   \<and> exc_class_of ImageTypeUnsupported = TypeError"
  by (simp add: add_image_def encode_image_def)

theorem pixel_array_errors_witness:
  "dtype float_vector \<noteq> UInt8
   \<and> add_image toy_env doc0 (NdArray float_vector) PyNone PyNone PyNone False
       = (Some DtypeNotUint8, doc0)
   \<and> dtype byte_hypercube = UInt8 \<and> ndim byte_hypercube = 4
   \<and> add_image toy_env doc0 (NdArray byte_hypercube) PyNone PyNone PyNone False
       = (Some NdimNot2Or3, doc0)"
  using pixel_array_errors [of float_vector toy_env doc0 PyNone PyNone PyNone False]
    pixel_array_errors [of byte_hypercube toy_env doc0 PyNone PyNone PyNone False]
  by (simp add: float_vector_def byte_hypercube_def ndim_def)

section \<open>A PNG file decodes to the image encoded\<close>

lemma rd_be_snoc: "rd_be (xs @ [b]) = rd_be xs * 256 + unat b"
  by (simp add: rd_be_def)

lemma length_be_bytes: "length (be_bytes k n) = k"
  by (induction k arbitrary: n) simp_all

lemma unat_byte_of_nat: "unat (of_nat n :: 8 word) = n mod 256"
  by (simp add: unat_of_nat)

lemma rd_be_bytes: "rd_be (be_bytes k n) = n mod 256 ^ k"
proof (induction k arbitrary: n)
  case 0
  show ?case by (simp add: rd_be_def)
next
  case (Suc k)
  have "rd_be (be_bytes (Suc k) n) = (n div 256 mod 256 ^ k) * 256 + n mod 256"
    by (simp add: rd_be_snoc Suc.IH unat_byte_of_nat)
  also have "\<dots> = n mod (256 * 256 ^ k)"
    by (simp add: mod_mult2_eq)
  finally show ?case by simp
qed

lemma rd_be32: "n < 2 ^ 32 \<Longrightarrow> rd_be (be_bytes 4 n) = n"
  by (simp add: rd_be_bytes)

lemma le16: "n < 65536 \<Longrightarrow> n mod 256 + 256 * (n div 256 mod 256) = (n::nat)"
proof -
  assume "n < 65536"
  then have "n div 256 < 256" by simp
  then have "n div 256 mod 256 = n div 256" by simp
  then show ?thesis by simp
qed

lemma blocks_of_empty: "blocks_of n [] = []"
  by (subst blocks_of.simps) simp

lemma blocks_of_step: "0 < n \<Longrightarrow> xs \<noteq> [] \<Longrightarrow> blocks_of n xs = take n xs # blocks_of n (drop n xs)"
  by (subst blocks_of.simps) simp

lemma concat_blocks_of: "0 < n \<Longrightarrow> concat (blocks_of n xs) = xs"
proof (induction n xs rule: blocks_of.induct)
  case (1 n xs)
  show ?case
  proof (cases "xs = []")
    case True
    then show ?thesis by (simp add: blocks_of_empty)
  next
    case False
    with 1 show ?thesis by (simp add: blocks_of_step)
  qed
qed

lemma blocks_of_length: "c \<in> set (blocks_of n xs) \<Longrightarrow> length c \<le> n"
proof (induction n xs rule: blocks_of.induct)
  case (1 n xs)
  show ?case
  proof (cases "xs = [] \<or> n = 0")
    case True
    with 1(2) show ?thesis by (subst (asm) blocks_of.simps) auto
  next
    case False
    with 1(2) have "c = take n xs \<or> c \<in> set (blocks_of n (drop n xs))"
      by (subst (asm) blocks_of.simps) auto
    with False 1(1) show ?thesis by auto
  qed
qed

lemma blocks_of_not_empty: "0 < n \<Longrightarrow> xs \<noteq> [] \<Longrightarrow> blocks_of n xs \<noteq> []"
  by (simp add: blocks_of_step)

lemma length_chunk: "length (chunk ty data) = 8 + length ty + length data"
  by (simp add: chunk_def length_be_bytes)

lemma read_chunks_chunk:
  assumes ty: "length ty = 4" and len: "length data < 2 ^ 32"
  shows "read_chunks (chunk ty data @ rest) = map_option ((#) (ty, data)) (read_chunks rest)"
proof -
  define n where "n = length data"
  define len4 where "len4 = be_bytes 4 n"
  define crc4 where "crc4 = be_bytes 4 (unat (crc32 (ty @ data)))"
  have l4: "length len4 = 4" "length crc4 = 4"
    by (simp_all add: len4_def crc4_def length_be_bytes)
  have whole: "chunk ty data @ rest = len4 @ ty @ data @ crc4 @ rest"
    by (simp add: chunk_def len4_def crc4_def n_def)
  from l4 have ne: "len4 \<noteq> []" by auto
  have rd_len: "rd_be len4 = n"
    using len by (simp add: len4_def n_def rd_be32)
  have "unat (crc32 (ty @ data)) < 2 ^ 32"
    using unsigned_less [of "crc32 (ty @ data)", where ?'a = nat] by simp
  then have rd_crc: "rd_be crc4 = unat (crc32 (ty @ data))"
    by (simp add: crc4_def rd_be32)
  show ?thesis
    unfolding whole
    by (subst read_chunks.simps)
      (simp add: l4 ne ty rd_len rd_crc n_def [symmetric] Let_def)
qed

lemma read_chunks_empty: "read_chunks [] = Some []"
  by (subst read_chunks.simps) simp

lemma read_chunks_chunks:
  assumes ty: "length ty = 4" and len: "\<forall>d \<in> set ds. length d < 2 ^ 32"
  shows "read_chunks (concat (map (chunk ty) ds) @ rest)
           = map_option ((@) (map (Pair ty) ds)) (read_chunks rest)"
  using len
proof (induction ds)
  case Nil
  show ?case by (simp add: option.map_ident)
next
  case (Cons d ds)
  then show ?case
    by (simp add: read_chunks_chunk [OF ty] option.map_comp comp_def)
qed

lemma inflate_stored_blocks: "inflate_stored (stored_blocks data @ rest) = Some (data, rest)"
proof (induction data rule: stored_blocks.induct)
  case (1 data)
  show ?case
  proof (cases "length data \<le> 65535")
    case True
    define l0 l1 n0 n1 :: "8 word"
      where "l0 = of_nat (length data)" and "l1 = of_nat (length data div 256)"
        and "n0 = of_nat (65535 - length data)" and "n1 = of_nat ((65535 - length data) div 256)"
    have enc: "stored_blocks data = [1, l0, l1, n0, n1] @ data"
      using True by (subst stored_blocks.simps) (simp only: l0_def l1_def n0_def n1_def if_True)
    from True have a: "length data < 65536" and b: "65535 - length data < 65536" by simp_all
    have "unat l0 + 256 * unat l1 = length data mod 256 + 256 * (length data div 256 mod 256)"
      unfolding l0_def l1_def by (simp only: unat_byte_of_nat)
    then have len: "unat l0 + 256 * unat l1 = length data"
      by (simp only: le16 [OF a])
    have "unat n0 + 256 * unat n1
        = (65535 - length data) mod 256 + 256 * ((65535 - length data) div 256 mod 256)"
      unfolding n0_def n1_def by (simp only: unat_byte_of_nat)
    then have nlen: "unat n0 + 256 * unat n1 = 65535 - length data"
      by (simp only: le16 [OF b])
    show ?thesis
      unfolding enc using True by (simp add: len nlen Let_def)
  next
    case False
    have hdr: "unat (0xFF :: 8 word) + 256 * unat (0xFF :: 8 word) = 65535" by simp
    from False 1 show ?thesis
      by (subst stored_blocks.simps) (simp add: Let_def)
  qed
qed

lemma zlib_roundtrip: "zlib_decompress (zlib_compress data) = Some data"
proof -
  have "adler32 data < 2 ^ 32"
  proof -
    have inv: "fst (foldl adler_byte s bs) < 65521 \<and> snd (foldl adler_byte s bs) < 65521"
      if "fst s < 65521 \<and> snd s < 65521" for s bs
      using that by (induction bs arbitrary: s) (simp_all add: adler_byte_def Let_def)
    have "fst (foldl adler_byte (1, 0) data) < 65521 \<and> snd (foldl adler_byte (1, 0) data) < 65521"
      by (rule inv) simp
    then have "snd (foldl adler_byte (1, 0) data) * 65536 + fst (foldl adler_byte (1, 0) data)
        < 65521 * 65536 + 65521"
      by (meson add_less_le_mono less_imp_le_nat mult_le_mono1 add_mono_thms_linordered_field(4))
    then show ?thesis by (simp add: adler32_def Let_def)
  qed
  then have "rd_be (be_bytes 4 (adler32 data)) = adler32 data" by (rule rd_be32)
  then show ?thesis
    by (simp add: zlib_decompress_def zlib_compress_def inflate_stored_blocks length_be_bytes)
qed

lemma unfilter_scanlines:
  "length px = stride * k \<Longrightarrow> unfilter stride k (scanlines stride k px) = Some px"
proof (induction k arbitrary: px)
  case 0
  then show ?case by simp
next
  case (Suc k)
  then have "length (drop stride px) = stride * k" by simp
  then have "unfilter stride k (scanlines stride k (drop stride px)) = Some (drop stride px)"
    by (rule Suc.IH)
  moreover from Suc.prems have "stride \<le> length px" by simp
  ultimately show ?case by simp
qed

lemma mode_of_colour_type: "mode_of_colour_type (colour_type m) = Some m"
  by (cases m) (simp_all add: mode_of_colour_type_def)

lemma read_header_bytes:
  assumes "0 < w" "w < 2 ^ 31" "0 < h" "h < 2 ^ 31"
  shows "read_header (be_bytes 4 w @ be_bytes 4 h @ [8, colour_type m, 0, 0, 0]) = Some (m, w, h)"
proof -
  define w4 h4 where "w4 = be_bytes 4 w" and "h4 = be_bytes 4 h"
  have l: "length w4 = 4" "length h4 = 4"
    by (simp_all add: w4_def h4_def length_be_bytes)
  from assms have "w < 2 ^ 32" "h < 2 ^ 32" by simp_all
  then have rd: "rd_be w4 = w" "rd_be h4 = h"
    by (simp_all add: w4_def h4_def rd_be32)
  show ?thesis
    unfolding w4_def [symmetric] h4_def [symmetric]
    using assms by (simp add: read_header_def l rd Let_def mode_of_colour_type)
qed

lemma read_chunks_last:
  assumes "length ty = 4" and "length data < 2 ^ 32"
  shows "read_chunks (chunk ty data) = Some [(ty, data)]"
  using read_chunks_chunk [OF assms, of "[]"] by (simp add: read_chunks_empty)

lemma zlib_compress_not_empty: "zlib_compress data \<noteq> []"
  by (simp add: zlib_compress_def)

lemma png_decode_bytes:
  assumes w: "0 < im_width im" "im_width im < 2 ^ 31"
    and h: "0 < im_height im" "im_height im < 2 ^ 31"
    and px: "length (im_data im) = im_width im * channels (im_mode im) * im_height im"
  shows "png_decode (png_bytes im) = Some im"
proof -
  define hdr where "hdr = be_bytes 4 (im_width im) @ be_bytes 4 (im_height im)
      @ [8, colour_type (im_mode im), 0, 0, 0]"
  define raw where "raw = scanlines (im_width im * channels (im_mode im)) (im_height im) (im_data im)"
  define pieces where "pieces = blocks_of 65536 (zlib_compress raw)"
  have bytes: "png_bytes im
      = png_signature @ chunk IHDR hdr @ concat (map (chunk IDAT) pieces) @ chunk IEND []"
    by (simp add: png_bytes_def hdr_def raw_def pieces_def)
  have sig: "length png_signature = 8" by (simp add: png_signature_def)
  have ty: "length IHDR = 4" "length IDAT = 4" "length IEND = 4"
    by (simp_all add: IHDR_def IDAT_def IEND_def)
  have "length hdr = 13" by (simp add: hdr_def length_be_bytes)
  then have hdr_len: "length hdr < 2 ^ 32" by simp
  have piece_len: "\<forall>d \<in> set pieces. length d < 2 ^ 32"
  proof
    fix d assume "d \<in> set pieces"
    then have "length d \<le> 65536" unfolding pieces_def by (rule blocks_of_length)
    then show "length d < 2 ^ 32" by simp
  qed
  have pieces_ne: "pieces \<noteq> []"
    unfolding pieces_def by (rule blocks_of_not_empty) (simp_all add: zlib_compress_not_empty)
  have cat: "concat pieces = zlib_compress raw"
    unfolding pieces_def by (rule concat_blocks_of) simp
  have iend: "read_chunks (chunk IEND []) = Some [(IEND, [])]"
    by (rule read_chunks_last) (simp_all add: ty)
  have "read_chunks (concat (map (chunk IDAT) pieces) @ chunk IEND [])
      = Some (map (Pair IDAT) pieces @ [(IEND, [])])"
    by (simp only: read_chunks_chunks [OF ty(2) piece_len] iend option.map)
  then have chunks: "read_chunks (chunk IHDR hdr @ concat (map (chunk IDAT) pieces) @ chunk IEND [])
      = Some ((IHDR, hdr) # map (Pair IDAT) pieces @ [(IEND, [])])"
    by (simp only: read_chunks_chunk [OF ty(1) hdr_len] option.map)
  have head: "read_header hdr = Some (im_mode im, im_width im, im_height im)"
    unfolding hdr_def using w h by (rule read_header_bytes)
  have data: "concat (map (snd \<circ> Pair IDAT) pieces) = zlib_compress raw"
    by (simp add: comp_def cat)
  have "length (im_data im) = (im_width im * channels (im_mode im)) * im_height im"
    by (rule px)
  then have unf: "unfilter (im_width im * channels (im_mode im)) (im_height im) raw = Some (im_data im)"
    unfolding raw_def by (rule unfilter_scanlines)
  show ?thesis
    unfolding bytes
    by (simp add: png_decode_def sig chunks pieces_ne head data zlib_roundtrip unf list_all_iff)
qed

section \<open>Embedded images\<close>

text \<open>
  Against C4 as stated, which has the base64 text immediately after the comma of
  \<^verbatim>\<open>data:image/png;base64,\<close>: for a file holding the three bytes of \<^verbatim>\<open>Man\<close>,
  whose base64 encoding is \<^verbatim>\<open>TWFu\<close>, the call succeeds and the source attribute is
  \<^verbatim>\<open>data:image/png;base64, TWFu\<close>, with a space after the comma, which is not the
  tag the claim describes.
\<close>

theorem image_src_prefix_counterexample:
  \<open>add_image toy_env doc0 (Str ''man.png'') PyNone PyNone PyNone False
     = (None, doc0\<lparr>body := ''<img src="data:image/png;base64, TWFu" style="border:1px solid #021a40; margin: 3px 3px">\<newline>''\<rparr>)
   \<and> produced_bytes toy_env (Str ''man.png'') = Some [0x4D, 0x61, 0x6E]
   \<and> b64encode [0x4D, 0x61, 0x6E] = ''TWFu''
   \<and> body (snd (add_image toy_env doc0 (Str ''man.png'') PyNone PyNone PyNone False))
       \<noteq> body doc0 @ img_tag_spec (''data:image/png;base64,'' @ b64encode [0x4D, 0x61, 0x6E])
                        PyNone PyNone PyNone False\<close>
  by (simp add: add_image_def encode_image_def toy_env_def add_image_tag_def doc0_def Let_def
      b64_char_def b64_alphabet_def produced_bytes_def img_tag_spec_def)

lemma add_image_src:
  assumes "add_image E d x t h w p = (None, d')"
  shows "\<exists>bs src.
           produced_bytes E x = Some bs
         \<and> src = ''data:image/png;base64, '' @ b64encode bs
         \<and> body d' = body d @ img_tag_spec src t h w p
         \<and> take 23 src = ''data:image/png;base64, ''
         \<and> b64decode (drop 23 src) = Some bs"
proof -
  from assms obtain s where enc: "encode_image E x = Inr s"
    and d': "d' = add_image_tag d (''data:image/png;base64, '' @ s) t h w p"
    by (auto simp: add_image_def Let_def split: sum.splits)
  from enc obtain bs where bs: "produced_bytes E x = Some bs" and s: "s = b64encode bs"
    by (auto simp: encode_image_def produced_bytes_def
        split: pyobj.splits sum.splits if_splits)
  let ?src = "''data:image/png;base64, '' @ b64encode bs"
  have "body d' = body d @ img_tag_spec ?src t h w p"
    by (simp add: d' s add_image_tag_body)
  moreover have "take 23 ?src = ''data:image/png;base64, ''" by simp
  moreover have "b64decode (drop 23 ?src) = Some bs" by (simp add: b64decode_encode)
  ultimately show ?thesis using bs by blast
qed

lemma pillow_rgb_bytes:
  assumes ok: "produced_bytes (with_pillow P) (NdArray a) = Some bs"
    and dt: "dtype a = UInt8"
    and sh: "shape a = [rows, cols, 3]"
    and len: "length (buffer a) = rows * cols * 3"
  shows "png_decode bs
           = Some \<lparr>im_mode = ModeRGB, im_width = cols, im_height = rows, im_data = buffer a\<rparr>"
proof -
  let ?im = "\<lparr>im_mode = ModeRGB, im_width = cols, im_height = rows, im_data = buffer a\<rparr>"
  have im: "Image_fromarray a = Inr ?im"
    by (simp add: Image_fromarray_def dt sh)
  with ok have saved: "Image_save_png ?im = Inr bs"
    by (simp add: produced_bytes_def with_pillow_def split: sum.splits)
  then have guard: "\<not> (cols = 0 \<or> rows = 0 \<or> 2 ^ 31 \<le> cols \<or> 2 ^ 31 \<le> rows)"
    and bs: "bs = png_bytes ?im"
    by (simp_all add: Image_save_png_def split: if_splits)
  from guard have dims: "0 < cols" "cols < 2 ^ 31" "0 < rows" "rows < 2 ^ 31"
    by (simp_all add: not_le)
  have "png_decode (png_bytes ?im) = Some ?im"
    by (rule png_decode_bytes) (use dims len in \<open>simp_all add: ac_simps\<close>)
  with bs show ?thesis by simp
qed

text \<open>
  C4, amended. After a successful \<open>add_image\<close> the source attribute of the appended
  tag is \<^verbatim>\<open>data:image/png;base64,\<close>, one space, and immediately after it the base64
  encoding of the bytes produced for the image (the collaborator's PNG encoding for an
  array or a decoded image, the content of the file for a path, whatever that file
  holds); dropping those 23 characters and decoding the rest gives the bytes back. In
  particular, for a uint8 array of rows by cols by 3 the bytes recovered from the tag are
  a PNG file that decodes to an RGB image cols wide and rows high, with the pixels of the
  array.
\<close>

theorem image_src_data_uri:
  "(add_image E d x t h w p = (None, d') \<longrightarrow>
      (\<exists>bs src.
           produced_bytes E x = Some bs
         \<and> src = ''data:image/png;base64, '' @ b64encode bs
         \<and> body d' = body d @ img_tag_spec src t h w p
         \<and> take 23 src = ''data:image/png;base64, ''
         \<and> b64decode (drop 23 src) = Some bs))
   \<and> (add_image (with_pillow P) d (NdArray a) t h w p = (None, d'')
        \<and> shape a = [rows, cols, 3] \<and> length (buffer a) = rows * cols * 3 \<longrightarrow>
      (\<exists>bs src.
           dtype a = UInt8
         \<and> src = ''data:image/png;base64, '' @ b64encode bs
         \<and> body d'' = body d @ img_tag_spec src t h w p
         \<and> b64decode (drop 23 src) = Some bs
         \<and> png_decode bs
             = Some \<lparr>im_mode = ModeRGB, im_width = cols, im_height = rows,
                     im_data = buffer a\<rparr>))"
proof (intro conjI impI)
  assume "add_image E d x t h w p = (None, d')"
  then show "\<exists>bs src.
           produced_bytes E x = Some bs
         \<and> src = ''data:image/png;base64, '' @ b64encode bs
         \<and> body d' = body d @ img_tag_spec src t h w p
         \<and> take 23 src = ''data:image/png;base64, ''
         \<and> b64decode (drop 23 src) = Some bs"
    by (rule add_image_src)
next
  assume asm: "add_image (with_pillow P) d (NdArray a) t h w p = (None, d'')
        \<and> shape a = [rows, cols, 3] \<and> length (buffer a) = rows * cols * 3"
  then have call: "add_image (with_pillow P) d (NdArray a) t h w p = (None, d'')"
    and sh: "shape a = [rows, cols, 3]" and len: "length (buffer a) = rows * cols * 3"
    by simp_all
  from add_image_src [OF call] obtain bs
    where bs: "produced_bytes (with_pillow P) (NdArray a) = Some bs"
      and body: "body d'' = body d
          @ img_tag_spec (''data:image/png;base64, '' @ b64encode bs) t h w p"
      and decoded: "b64decode (drop 23 (''data:image/png;base64, '' @ b64encode bs)) = Some bs"
    by blast
  from call have dt: "dtype a = UInt8"
    by (auto simp: add_image_def encode_image_def split: sum.splits if_splits)
  from pillow_rgb_bytes [OF bs dt sh len] dt body decoded
  show "\<exists>bs src.
           dtype a = UInt8
         \<and> src = ''data:image/png;base64, '' @ b64encode bs
         \<and> body d'' = body d @ img_tag_spec src t h w p
         \<and> b64decode (drop 23 src) = Some bs
         \<and> png_decode bs
             = Some \<lparr>im_mode = ModeRGB, im_width = cols, im_height = rows,
                     im_data = buffer a\<rparr>"
    by blast
qed

theorem image_src_data_uri_witness:
  \<open>add_image toy_env doc0 (Str ''man.png'') PyNone PyNone PyNone False
     = (None, doc0\<lparr>body := ''<img src="data:image/png;base64, TWFu" style="border:1px solid #021a40; margin: 3px 3px">\<newline>''\<rparr>)
   \<and> (\<exists>bs. produced_bytes toy_env (Str ''man.png'') = Some bs
          \<and> b64decode (drop 23 (''data:image/png;base64, '' @ b64encode bs)) = Some bs)
   \<and> fst (add_image (with_pillow pillow_env) doc0 (NdArray rgb_image)
              PyNone PyNone PyNone False) = None
   \<and> shape rgb_image = [2, 2, 3] \<and> length (buffer rgb_image) = 2 * 2 * 3
   \<and> (\<exists>bs. body (snd (add_image (with_pillow pillow_env) doc0 (NdArray rgb_image)
                          PyNone PyNone PyNone False))
              = body doc0 @ img_tag_spec (''data:image/png;base64, '' @ b64encode bs)
                              PyNone PyNone PyNone False
          \<and> b64decode (drop 23 (''data:image/png;base64, '' @ b64encode bs)) = Some bs
          \<and> png_decode bs
              = Some \<lparr>im_mode = ModeRGB, im_width = 2, im_height = 2,
                      im_data = [0, 0, 0, 1, 1, 1, 2, 2, 2, 3, 3, 3]\<rparr>)\<close>
proof -
  let ?d' = \<open>doc0\<lparr>body := ''<img src="data:image/png;base64, TWFu" style="border:1px solid #021a40; margin: 3px 3px">\<newline>''\<rparr>\<close>
  let ?call = "add_image (with_pillow pillow_env) doc0 (NdArray rgb_image)
      PyNone PyNone PyNone False"
  have a: "add_image toy_env doc0 (Str ''man.png'') PyNone PyNone PyNone False = (None, ?d')"
    by (simp add: add_image_def encode_image_def toy_env_def add_image_tag_def doc0_def Let_def
        b64_char_def b64_alphabet_def)
  have ok: "fst ?call = None"
    by (simp add: add_image_def encode_image_def with_pillow_def pillow_env_def
        Image_fromarray_def Image_save_png_def rgb_image_def ndim_def Let_def)
  then have b: "?call = (None, snd ?call)"
    by (metis prod.collapse)
  have sh: "shape rgb_image = [2, 2, 3]" and len: "length (buffer rgb_image) = 2 * 2 * 3"
    and buf: "buffer rgb_image = [0, 0, 0, 1, 1, 1, 2, 2, 2, 3, 3, 3]"
    by (simp_all add: rgb_image_def)
  note inst = image_src_data_uri [where E = toy_env and d = doc0 and x = "Str ''man.png''"
      and t = PyNone and h = PyNone and w = PyNone and p = False and d' = ?d'
      and P = pillow_env and a = rgb_image and d'' = "snd ?call" and rows = 2 and cols = 2]
  from inst a have first: "\<exists>bs. produced_bytes toy_env (Str ''man.png'') = Some bs
      \<and> b64decode (drop 23 (''data:image/png;base64, '' @ b64encode bs)) = Some bs"
    by blast
  from inst b sh len have "\<exists>bs. body (snd ?call)
          = body doc0 @ img_tag_spec (''data:image/png;base64, '' @ b64encode bs)
                          PyNone PyNone PyNone False
      \<and> b64decode (drop 23 (''data:image/png;base64, '' @ b64encode bs)) = Some bs
      \<and> png_decode bs
          = Some \<lparr>im_mode = ModeRGB, im_width = 2, im_height = 2, im_data = buffer rgb_image\<rparr>"
    by blast
  then have second: "\<exists>bs. body (snd ?call)
          = body doc0 @ img_tag_spec (''data:image/png;base64, '' @ b64encode bs)
                          PyNone PyNone PyNone False
      \<and> b64decode (drop 23 (''data:image/png;base64, '' @ b64encode bs)) = Some bs
      \<and> png_decode bs
          = Some \<lparr>im_mode = ModeRGB, im_width = 2, im_height = 2,
                  im_data = [0, 0, 0, 1, 1, 1, 2, 2, 2, 3, 3, 3]\<rparr>"
    by (simp only: buf)
  from a first ok sh len second show ?thesis by blast
qed

section \<open>The chart runtime\<close>

lemma chart_step:
  assumes "m = (if is_plotlyjs_included d then Omit else if r then Inline else Cdn)"
  shows "fst (add_plotly_figure E d (Figure f) r) = chart_outcome E (f, m)"
    and "body (snd (add_plotly_figure E d (Figure f) r)) = body d @ chart_fragment E (f, m)"
    and "is_plotlyjs_included (snd (add_plotly_figure E d (Figure f) r))
           = (is_plotlyjs_included d \<or> r)"
  using assms
  by (simp_all add: add_plotly_figure_def chart_outcome_def chart_fragment_def
      split: sum.splits)

lemma run_charts:
  "run_results E d (map chart_call frs)
     = map (chart_outcome E) (zip (map fst frs) (spec_modes (is_plotlyjs_included d) (map snd frs)))
   \<and> body (run E d (map chart_call frs))
     = body d @ concat (map (chart_fragment E)
                          (zip (map fst frs) (spec_modes (is_plotlyjs_included d) (map snd frs))))
   \<and> is_plotlyjs_included (run E d (map chart_call frs))
     = (is_plotlyjs_included d \<or> (\<exists>r \<in> set (map snd frs). r))"
proof (induction frs arbitrary: d)
  case Nil
  show ?case by simp
next
  case (Cons fr frs)
  obtain f r where fr: "fr = (f, r)" by (cases fr)
  define m where "m = (if is_plotlyjs_included d then Omit else if r then Inline else Cdn)"
  define d1 where "d1 = snd (add_plotly_figure E d (Figure f) r)"
  note st = chart_step [OF m_def, of E f, folded d1_def]
  from Cons.IH [of d1] show ?case
    by (simp add: fr chart_call_def st d1_def [symmetric]) (simp add: m_def)
qed

lemma spec_modes_included: "spec_modes True rs = replicate (length rs) Omit"
  by (induction rs) simp_all

lemma spec_modes_length: "length (spec_modes b rs) = length rs"
  by (induction rs arbitrary: b) simp_all

lemma count_replicate_other: "x \<noteq> y \<Longrightarrow> count_list (replicate n x) y = 0"
  by (induction n) simp_all

lemma inline_at_most_once: "count_list (spec_modes b rs) Inline \<le> 1"
  by (induction rs arbitrary: b) (simp_all add: spec_modes_included count_replicate_other)

lemma inline_position:
  "i < length rs \<Longrightarrow>
     (spec_modes False rs ! i = Inline) = (rs ! i \<and> (\<forall>j<i. \<not> rs ! j))"
proof (induction rs arbitrary: i)
  case Nil
  then show ?case by simp
next
  case (Cons r rs)
  show ?case
  proof (cases i)
    case 0
    then show ?thesis by simp
  next
    case (Suc k)
    with Cons.prems have k: "k < length rs" by simp
    show ?thesis
    proof (cases r)
      case True
      with Suc k show ?thesis
        by (auto simp: spec_modes_included)
    next
      case False
      with Suc Cons.IH [OF k] show ?thesis
        by (simp add: All_less_Suc2)
    qed
  qed
qed

text \<open>
  C2. For a sequence of \<open>add_plotly_figure\<close> calls on a document whose flag is false,
  each call hands the collaborator the mode that the rule of the specification gives
  (omit if the flag is already true, whatever is requested; else inline if requested,
  setting the flag; else the CDN reference, the flag staying false): call by call, the
  outcome is the collaborator's at that mode, and the body gains the collaborator's
  markup at that mode. The flag ends true exactly when some call requested inline
  inclusion; once true after a part of the sequence it is true after all of it, and no
  call of any method sets it back. Inline is requested from the collaborator at most
  once, and at call \<open>i\<close> exactly when \<open>i\<close> is the first call that requests it.
\<close>

theorem chart_runtime_once:
  assumes "\<not> is_plotlyjs_included d"
  shows "run_results E d (map chart_call frs)
           = map (chart_outcome E) (zip (map fst frs) (spec_modes False (map snd frs)))
       \<and> body (run E d (map chart_call frs))
           = body d @ concat (map (chart_fragment E)
                                (zip (map fst frs) (spec_modes False (map snd frs))))
       \<and> is_plotlyjs_included (run E d (map chart_call frs)) = (\<exists>r \<in> set (map snd frs). r)
       \<and> (is_plotlyjs_included (run E d (map chart_call (take n frs)))
            \<longrightarrow> is_plotlyjs_included (run E d (map chart_call frs)))
       \<and> (is_plotlyjs_included d0 \<longrightarrow> is_plotlyjs_included (snd (step E d0 c)))
       \<and> count_list (spec_modes False (map snd frs)) Inline \<le> 1
       \<and> (\<forall>i < length frs.
            (spec_modes False (map snd frs) ! i = Inline)
              = (snd (frs ! i) \<and> (\<forall>j<i. \<not> snd (frs ! j))))"
proof (intro conjI impI allI)
  from assms run_charts [of E d frs]
  show "run_results E d (map chart_call frs)
           = map (chart_outcome E) (zip (map fst frs) (spec_modes False (map snd frs)))"
    and "body (run E d (map chart_call frs))
           = body d @ concat (map (chart_fragment E)
                                (zip (map fst frs) (spec_modes False (map snd frs))))"
    and "is_plotlyjs_included (run E d (map chart_call frs)) = (\<exists>r \<in> set (map snd frs). r)"
    by simp_all
next
  assume "is_plotlyjs_included (run E d (map chart_call (take n frs)))"
  then have "is_plotlyjs_included
      (run E (run E d (map chart_call (take n frs))) (map chart_call (drop n frs)))"
    by (rule run_flag)
  moreover have "run E (run E d xs) ys = run E d (xs @ ys)" for xs ys
    by (induction xs arbitrary: d) simp_all
  ultimately have "is_plotlyjs_included
      (run E d (map chart_call (take n frs) @ map chart_call (drop n frs)))"
    by simp
  then show "is_plotlyjs_included (run E d (map chart_call frs))"
    by (simp flip: map_append)
next
  assume "is_plotlyjs_included d0"
  then show "is_plotlyjs_included (snd (step E d0 c))" by (rule step_flag)
next
  show "count_list (spec_modes False (map snd frs)) Inline \<le> 1"
    by (rule inline_at_most_once)
next
  fix i
  assume "i < length frs"
  then show "(spec_modes False (map snd frs) ! i = Inline)
              = (snd (frs ! i) \<and> (\<forall>j<i. \<not> snd (frs ! j)))"
    using inline_position [of i "map snd frs"] by simp
qed

theorem chart_runtime_once_witness:
  \<open>\<not> is_plotlyjs_included doc0
   \<and> spec_modes False (map snd [(''a'', False), (''b'', True), (''c'', True)]) = [Cdn, Inline, Omit]
   \<and> body (run toy_env doc0 (map chart_call [(''a'', False), (''b'', True), (''c'', True)]))
      = ''<div class="plotly-figure">\<newline><script src="cdn"></script>a\<newline></div>\<newline><div class="plotly-figure">\<newline><script>plotly.js</script>b\<newline></div>\<newline><div class="plotly-figure">\<newline>c\<newline></div>\<newline>''
   \<and> is_plotlyjs_included (run toy_env doc0 (map chart_call [(''a'', False), (''b'', True), (''c'', True)]))\<close>
proof -
  have a: "\<not> is_plotlyjs_included doc0" by (simp add: doc0_def)
  have b: "spec_modes False (map snd [(''a'', False), (''b'', True), (''c'', True)])
      = [Cdn, Inline, Omit]"
    by simp
  from chart_runtime_once [OF a, of toy_env "[(''a'', False), (''b'', True), (''c'', True)]"]
  have \<open>body (run toy_env doc0 (map chart_call [(''a'', False), (''b'', True), (''c'', True)]))
      = body doc0 @ concat (map (chart_fragment toy_env)
          (zip (map fst [(''a'', False), (''b'', True), (''c'', True)])
             (spec_modes False (map snd [(''a'', False), (''b'', True), (''c'', True)]))))\<close>
    and c: "is_plotlyjs_included
        (run toy_env doc0 (map chart_call [(''a'', False), (''b'', True), (''c'', True)]))
      = (\<exists>r \<in> set (map snd [(''a'', False), (''b'', True), (''c'', True)]). r)"
    by blast+
  then have \<open>body (run toy_env doc0 (map chart_call [(''a'', False), (''b'', True), (''c'', True)]))
      = ''<div class="plotly-figure">\<newline><script src="cdn"></script>a\<newline></div>\<newline><div class="plotly-figure">\<newline><script>plotly.js</script>b\<newline></div>\<newline><div class="plotly-figure">\<newline>c\<newline></div>\<newline>''\<close>
    by (simp add: chart_fragment_def toy_env_def doc0_def)
  moreover from c have "is_plotlyjs_included
        (run toy_env doc0 (map chart_call [(''a'', False), (''b'', True), (''c'', True)]))"
    by simp
  ultimately show ?thesis using a b by blast
qed

end
